theory Spec2Isabelle
  imports Main "HOL-Library.Monad_Syntax"
begin

section \<open>JavaScript values as the handlers of server.js meet them\<close>

text \<open>
  The request handlers of \<^verbatim>\<open>server.js\<close> take \<^verbatim>\<open>amount\<close> from the parsed JSON body and
  never convert it before comparing and subtracting; only the funding route passes it
  through \<^verbatim>\<open>Number.parseFloat\<close>. A JSON body can carry the amount as a number or as a
  string, and the \<^verbatim>\<open>+=\<close> of JavaScript concatenates as soon as one operand is a string,
  so a balance can become a string as well. Both kinds of value are modelled; an amount
  that is a boolean, \<^verbatim>\<open>null\<close>, an array or an object is not. Identifiers, account
  numbers, e-mail addresses and the transaction code are strings.

  Numbers are whole numbers. The doubles of JavaScript hold every integer of magnitude
  up to \<open>2^53 - 1\<close> exactly, and a sum or a difference of two such integers that lies
  in that range again is computed exactly. The model compares, subtracts, adds and prints
  numbers in that range only: \<open>Num n\<close> stands for the double that the JSON number
  \<open>n\<close> parses to, which is \<open>n\<close> itself when \<open>n\<close> is in the range and a rounded
  value of the same sign otherwise, and an operation with an operand or an exact result
  outside the range returns \<open>None\<close>. Two integers outside the range can stand for
  one double, so the theorems below conclude that two numbers differ only for numbers
  inside it. Fractions, infinities and the sign of zero are outside the model as well. A transfer or a funding that depends on a \<open>None\<close> returns
  \<open>None\<close> too: there \<open>None\<close> never stands for a behaviour of the program, and no
  theorem below says anything about a request of which the model computes \<open>None\<close>.
\<close>

datatype jsval = Num int | Str string

datatype jsnum = Fin int | NaN

text \<open>\<^verbatim>\<open>Number.MAX_SAFE_INTEGER\<close>, which is \<open>2^53 - 1\<close>, and the integers of at most
  that magnitude.\<close>

definition MAX_SAFE_INTEGER :: int where
  "MAX_SAFE_INTEGER = 9007199254740991"

definition safe_integer :: "int \<Rightarrow> bool" where
  "safe_integer n \<longleftrightarrow> - MAX_SAFE_INTEGER \<le> n \<and> n \<le> MAX_SAFE_INTEGER"

text \<open>\<^verbatim>\<open>!v\<close>: zero and the empty string are falsy (rounding takes no integer other
  than 0 to 0). A field missing from the body is \<^verbatim>\<open>undefined\<close>, falsy like the empty
  string, and takes the same branch.\<close>

fun falsy :: "jsval \<Rightarrow> bool" where
  "falsy (Num n) = (n = 0)"
| "falsy (Str s) = (s = [])"

definition is_digit :: "char \<Rightarrow> bool" where
  "is_digit c = (List.member ''0123456789'' c)"

text \<open>An ASCII letter that can neither continue a decimal literal (\<^verbatim>\<open>e\<close>, \<^verbatim>\<open>E\<close>) nor
  mark a binary, octal or hexadecimal one (\<^verbatim>\<open>b\<close>, \<^verbatim>\<open>o\<close>, \<^verbatim>\<open>x\<close>).\<close>

definition plain_letter :: "char \<Rightarrow> bool" where
  "plain_letter c =
     (List.member ''acdfghijklmnpqrstuvwyzACDFGHIJKLMNPQRSTUVWYZ'' c)"

definition digits_value :: "string \<Rightarrow> int" where
  "digits_value ds = foldl (\<lambda>a c. 10 * a + (of_char c - 48)) 0 ds"

text \<open>The sign, the leading decimal digits and the rest of a string.\<close>

definition scan_number :: "string \<Rightarrow> bool \<times> string \<times> string" where
  "scan_number s =
     (let neg = (case s of [] \<Rightarrow> False | c # _ \<Rightarrow> c = CHR ''-'');
          r = (if neg then tl s else s)
      in (neg, takeWhile is_digit r, dropWhile is_digit r))"

definition signed :: "bool \<Rightarrow> int \<Rightarrow> int" where
  "signed neg n = (if neg then - n else n)"

text \<open>
  \<^verbatim>\<open>ToNumber\<close> on a string (ECMAScript \<^verbatim>\<open>StringToNumber\<close>), on the strings the model
  covers: an optional minus sign and at least one decimal digit, followed by nothing
  (the string is that integer) or by a rest that starts with a plain letter (no numeric
  literal has that shape, so the string is \<^verbatim>\<open>NaN\<close>). Every other string (white space,
  fractions, exponents, other radixes, \<^verbatim>\<open>Infinity\<close>) is outside the model. As with
  \<open>Num\<close>, the result \<open>Fin n\<close> stands for \<open>n\<close> itself only when \<open>n\<close> is in the safe
  range.
\<close>

definition StringToNumber :: "string \<Rightarrow> jsnum option" where
  "StringToNumber s =
     (case scan_number s of (neg, ds, rest) \<Rightarrow>
        if ds = [] then None
        else if rest = [] then Some (Fin (signed neg (digits_value ds)))
        else if plain_letter (hd rest) then Some NaN
        else None)"

fun ToNumber :: "jsval \<Rightarrow> jsnum option" where
  "ToNumber (Num n) = Some (Fin n)"
| "ToNumber (Str s) = StringToNumber s"

text \<open>
  \<^verbatim>\<open>Number.parseFloat\<close> reads the longest prefix that is a decimal literal: on the same
  strings, the signed digits, whatever follows. On a number it gives the number back.
\<close>

definition parseFloat_string :: "string \<Rightarrow> jsnum option" where
  "parseFloat_string s =
     (case scan_number s of (neg, ds, rest) \<Rightarrow>
        if ds = [] then None
        else if rest = [] \<or> plain_letter (hd rest)
        then Some (Fin (signed neg (digits_value ds)))
        else None)"

fun parseFloat :: "jsval \<Rightarrow> jsnum option" where
  "parseFloat (Num n) = Some (Fin n)"
| "parseFloat (Str s) = parseFloat_string s"

text \<open>\<^verbatim>\<open>Number.prototype.toString\<close> on an integer in the safe range: its decimal
  digits, after a minus sign when it is negative.\<close>

fun show_nat :: "nat \<Rightarrow> string" where
  "show_nat n =
     (if n < 10 then [char_of (48 + n)]
      else show_nat (n div 10) @ [char_of (48 + n mod 10)])"

definition ToString :: "int \<Rightarrow> string option" where
  "ToString n =
     (if safe_integer n
      then Some ((if n < 0 then ''-'' else []) @ show_nat (nat \<bar>n\<bar>))
      else None)"

text \<open>Strings compare by code unit; on ASCII strings the bytes of the model are the
  code units of JavaScript.\<close>

definition ascii :: "string \<Rightarrow> bool" where
  "ascii s = list_all (\<lambda>c. (of_char c :: nat) < 128) s"

fun string_less :: "string \<Rightarrow> string \<Rightarrow> bool" where
  "string_less [] [] = False"
| "string_less [] (y # ys) = True"
| "string_less (x # xs) [] = False"
| "string_less (x # xs) (y # ys) =
     (if (of_char x :: nat) < of_char y then True
      else if (of_char y :: nat) < of_char x then False
      else string_less xs ys)"

text \<open>An operand of a comparison or of a subtraction, converted to a number: \<^verbatim>\<open>NaN\<close>,
  or an integer in the safe range.\<close>

definition operand :: "jsval \<Rightarrow> jsnum option" where
  "operand a =
     do {
       x \<leftarrow> ToNumber a;
       (case x of
          Fin n \<Rightarrow> if safe_integer n then Some (Fin n) else None
        | NaN \<Rightarrow> Some NaN)
     }"

text \<open>\<^verbatim>\<open>a < b\<close>: two strings compare as strings, anything else as numbers, and a
  comparison with \<^verbatim>\<open>NaN\<close> is false.\<close>

fun js_less :: "jsval \<Rightarrow> jsval \<Rightarrow> bool option" where
  "js_less (Str s) (Str t) = (if ascii s \<and> ascii t then Some (string_less s t) else None)"
| "js_less a b =
     do {
       x \<leftarrow> operand a;
       y \<leftarrow> operand b;
       Some (case (x, y) of (Fin m, Fin n) \<Rightarrow> m < n | _ \<Rightarrow> False)
     }"

text \<open>\<^verbatim>\<open>a <= 0\<close>: false when \<^verbatim>\<open>a\<close> converts to \<^verbatim>\<open>NaN\<close>. Rounding keeps the sign of
  an integer, so the comparison with 0 needs no bound.\<close>

definition js_le_zero :: "jsval \<Rightarrow> bool option" where
  "js_le_zero a =
     do {
       x \<leftarrow> ToNumber a;
       Some (case x of Fin n \<Rightarrow> n \<le> 0 | NaN \<Rightarrow> False)
     }"

text \<open>\<^verbatim>\<open>a - b\<close> converts both operands to numbers. The difference of two integers in
  the safe range is the double the program computes when it is in the safe range
  itself. A \<^verbatim>\<open>NaN\<close> result is outside the model (the file would store it as
  \<^verbatim>\<open>null\<close>).\<close>

definition js_minus :: "jsval \<Rightarrow> jsval \<Rightarrow> jsval option" where
  "js_minus a b =
     do {
       x \<leftarrow> operand a;
       y \<leftarrow> operand b;
       (case (x, y) of
          (Fin m, Fin n) \<Rightarrow> if safe_integer (m - n) then Some (Num (m - n)) else None
        | _ \<Rightarrow> None)
     }"

text \<open>\<^verbatim>\<open>a + b\<close> adds two numbers, under the same bounds, and concatenates as soon as
  one operand is a string.\<close>

fun js_plus :: "jsval \<Rightarrow> jsval \<Rightarrow> jsval option" where
  "js_plus (Num m) (Num n) =
     (if safe_integer m \<and> safe_integer n \<and> safe_integer (m + n)
      then Some (Num (m + n)) else None)"
| "js_plus (Num m) (Str t) = do { s \<leftarrow> ToString m; Some (Str (s @ t)) }"
| "js_plus (Str s) (Num n) = do { t \<leftarrow> ToString n; Some (Str (s @ t)) }"
| "js_plus (Str s) (Str t) = Some (Str (s @ t))"

section \<open>The stored data\<close>

text \<open>An element of \<^verbatim>\<open>data/users.json\<close>, with the fields the seed and the registration
  route write. The field \<^verbatim>\<open>id\<close> is written \<open>id'\<close>. The fields other than the
  password form a record of their own: it is what the registration route sends back.\<close>

record account =
  id' :: string
  name :: string
  email :: string
  role :: string
  accountNumber :: string
  balance :: jsval
  currency :: string
  status :: string
  createdAt :: string

record user = account +
  password :: string

text \<open>
  An element of \<^verbatim>\<open>data/transactions.json\<close>. The two routes that create one write different
  sets of fields; a field the object literal does not have is \<open>None\<close>, as is a
  \<^verbatim>\<open>note\<close> that is \<^verbatim>\<open>undefined\<close> (\<^verbatim>\<open>JSON.stringify\<close> leaves it out).
\<close>

record transaction =
  tx_id :: string
  tx_type :: string
  tx_senderId :: "string option"
  tx_senderName :: "string option"
  tx_senderEmail :: "string option"
  tx_senderAccountNumber :: "string option"
  tx_adminId :: "string option"
  tx_adminName :: "string option"
  tx_recipientId :: string
  tx_recipientName :: string
  tx_recipientEmail :: string
  tx_recipientAccountNumber :: string
  tx_amount :: jsval
  tx_currency :: string
  tx_note :: "string option"
  tx_status :: string
  tx_createdAt :: string

text \<open>The two files. Every handler reads them afresh and keeps nothing between
  requests, and a handler runs from its first read to its last write without another
  handler in between (all file access is synchronous), so the files are the whole state.
  The routes that only read (login, the listings of users and transactions, the pages)
  leave the files alone and are not modelled.\<close>

record disk =
  USERS_FILE :: "user list"
  TRANSACTIONS_FILE :: "transaction list"

text \<open>
  What a request finds outside the program: whether each read and each write of a file
  goes through, the value \<^verbatim>\<open>uuidv4()\<close> returns, the time \<^verbatim>\<open>new Date().toISOString()\<close>
  returns, and the integers that successive evaluations of
  \<^verbatim>\<open>Math.floor(1000000000 + Math.random() * 9000000000)\<close> yield.
\<close>

record env =
  users_readable :: bool
  transactions_readable :: bool
  users_writable :: bool
  transactions_writable :: bool
  uuid :: string
  now :: string
  random :: "nat \<Rightarrow> nat"

text \<open>The users file as first written at start-up, when it does not exist yet (lines
  33 to 51), and the two files together; \<open>t\<close> is the time of that start.\<close>

definition seed_admin :: "string \<Rightarrow> user" where
  "seed_admin t =
     \<lparr>id' = ''admin-1'', name = ''Admin User'', email = ''admin@example.com'',
      role = ''admin'', accountNumber = ''9876543210'', balance = Num 500000000,
      currency = ''USD'', status = ''active'', createdAt = t, password = ''admin123''\<rparr>"

definition seed :: "string \<Rightarrow> disk" where
  "seed t = \<lparr>USERS_FILE = [seed_admin t], TRANSACTIONS_FILE = []\<rparr>"

section \<open>Helper functions\<close>

text \<open>\<^verbatim>\<open>generateAccountNumber\<close> (lines 28 to 30): the integer drawn, as
  \<^verbatim>\<open>toString()\<close> prints it.\<close>

definition generateAccountNumber :: "nat \<Rightarrow> string" where
  "generateAccountNumber r = show_nat r"

text \<open>\<^verbatim>\<open>readData\<close> (lines 58 to 66) returns the parsed file, and the empty array when
  reading or parsing throws.\<close>

definition readData :: "bool \<Rightarrow> 'a list \<Rightarrow> 'a list" where
  "readData readable file = (if readable then file else [])"

text \<open>\<^verbatim>\<open>writeData\<close> (lines 68 to 76) returns whether the write went through, with the
  file afterwards; a write that throws is taken to leave the file as it was.\<close>

definition writeData :: "bool \<Rightarrow> 'a list \<Rightarrow> 'a list \<Rightarrow> bool \<times> 'a list" where
  "writeData writable file data = (if writable then (True, data) else (False, file))"

text \<open>\<^verbatim>\<open>writeData(USERS_FILE, users) && writeData(TRANSACTIONS_FILE, transactions)\<close>: the
  second write is not attempted when the first fails.\<close>

definition writeBoth :: "env \<Rightarrow> user list \<Rightarrow> transaction list \<Rightarrow> disk \<Rightarrow> bool \<times> disk" where
  "writeBoth e users transactions d =
     (case writeData (users_writable e) (USERS_FILE d) users of (ok1, uf) \<Rightarrow>
        if ok1
        then (case writeData (transactions_writable e) (TRANSACTIONS_FILE d) transactions of
                (ok2, tf) \<Rightarrow> (ok2, \<lparr>USERS_FILE = uf, TRANSACTIONS_FILE = tf\<rparr>))
        else (False, d\<lparr>USERS_FILE := uf\<rparr>))"

text \<open>\<^verbatim>\<open>Array.prototype.findIndex\<close>, with \<open>None\<close> for \<open>-1\<close>. \<^verbatim>\<open>find\<close> returns the
  element at that index, the very object of the array, so the handlers below keep the
  index and update the array there.\<close>

fun findIndex :: "('a \<Rightarrow> bool) \<Rightarrow> 'a list \<Rightarrow> nat option" where
  "findIndex p [] = None"
| "findIndex p (x # xs) =
     (if p x then Some 0 else map_option Suc (findIndex p xs))"

section \<open>Responses\<close>

datatype payload =
    Message string
  | TransactionBody transaction
  | UserBody account

record response =
  http_status :: nat
  success :: bool
  body :: payload

definition failure :: "nat \<Rightarrow> string \<Rightarrow> response" where
  "failure code msg = \<lparr>http_status = code, success = False, body = Message msg\<rparr>"

section \<open>Registration: POST /api/auth/register\<close>

text \<open>
  Lines 101 to 141. The loop \<^verbatim>\<open>do { accountNumber = generateAccountNumber() } while (users.some(...))\<close>,
  started at the \<open>k\<close>-th draw. It has no bound in the source: when every draw from
  \<open>k\<close> on is taken, it does not return, which is the value \<open>None\<close>.
\<close>

partial_function (option) allocate :: "(nat \<Rightarrow> nat) \<Rightarrow> nat \<Rightarrow> user list \<Rightarrow> string option" where
  "allocate rnd k users =
     (let candidate = generateAccountNumber (rnd k) in
      if list_ex (\<lambda>u. accountNumber u = candidate) users
      then allocate rnd (Suc k) users
      else Some candidate)"

definition newUser :: "env \<Rightarrow> string \<Rightarrow> string \<Rightarrow> string \<Rightarrow> string \<Rightarrow> string \<Rightarrow> user" where
  "newUser e firstName lastName req_email req_password number =
     \<lparr>id' = ''user-'' @ uuid e, name = firstName @ '' '' @ lastName, email = req_email,
      role = ''user'', accountNumber = number, balance = Num 0, currency = ''USD'',
      status = ''active'', createdAt = now e, password = req_password\<rparr>"

definition register ::
  "env \<Rightarrow> string \<Rightarrow> string \<Rightarrow> string \<Rightarrow> string \<Rightarrow> disk \<Rightarrow> (response \<times> disk) option" where
  "register e firstName lastName req_email req_password d =
     (if firstName = [] \<or> lastName = [] \<or> req_email = [] \<or> req_password = []
      then Some (failure 400 ''All fields are required'', d)
      else
        (let users = readData (users_readable e) (USERS_FILE d) in
         if list_ex (\<lambda>u. email u = req_email) users
         then Some (failure 400 ''Email already in use'', d)
         else do {
           number \<leftarrow> allocate (random e) 0 users;
           let new = newUser e firstName lastName req_email req_password number;
           Some (case writeData (users_writable e) (USERS_FILE d) (users @ [new]) of
                   (ok, uf) \<Rightarrow>
                     if ok
                     then (\<lparr>http_status = 201, success = True,
                            body = UserBody (account.truncate new)\<rparr>,
                           d\<lparr>USERS_FILE := uf\<rparr>)
                     else (failure 500 ''Failed to create user'', d\<lparr>USERS_FILE := uf\<rparr>))
         }))"

section \<open>Deleting a user: DELETE /api/users/:id\<close>

text \<open>Lines 165 to 186. \<^verbatim>\<open>users.splice(userIndex, 1)\<close> removes the entry at the index
  found.\<close>

definition delete_user :: "env \<Rightarrow> string \<Rightarrow> disk \<Rightarrow> response \<times> disk" where
  "delete_user e ident d =
     (let users = readData (users_readable e) (USERS_FILE d) in
      case findIndex (\<lambda>u. id' u = ident) users of
        None \<Rightarrow> (failure 404 ''User not found'', d)
      | Some userIndex \<Rightarrow>
          if role (users ! userIndex) = ''admin''
          then (failure 403 ''Cannot delete admin user'', d)
          else
            (case writeData (users_writable e) (USERS_FILE d)
                    (take userIndex users @ drop (Suc userIndex) users) of
               (ok, uf) \<Rightarrow>
                 if ok
                 then (\<lparr>http_status = 200, success = True,
                        body = Message ''User deleted successfully''\<rparr>,
                       d\<lparr>USERS_FILE := uf\<rparr>)
                 else (failure 500 ''Failed to delete user'', d\<lparr>USERS_FILE := uf\<rparr>)))"

section \<open>Transfers: POST /api/transactions/send\<close>

text \<open>
  Lines 189 to 248. First the two assignments of lines 218 and 219,
  \<^verbatim>\<open>sender.balance -= amount; recipient.balance += amount\<close>, on the objects at the
  indices \<open>i\<close> and \<open>j\<close> of the array. The credit reads the array the debit has
  written: when both indices are the same, both assignments hit one object.
\<close>

definition update_balances :: "user list \<Rightarrow> nat \<Rightarrow> nat \<Rightarrow> jsval \<Rightarrow> user list option" where
  "update_balances users i j amount =
     do {
       debited \<leftarrow> js_minus (balance (users ! i)) amount;
       let users1 = users[i := (users ! i)\<lparr>balance := debited\<rparr>];
       credited \<leftarrow> js_plus (balance (users1 ! j)) amount;
       Some (users1[j := (users1 ! j)\<lparr>balance := credited\<rparr>])
     }"

text \<open>The transaction record of lines 223 to 239, built from the two objects as the
  assignments have left them.\<close>

definition transfer_record ::
  "env \<Rightarrow> string \<Rightarrow> string \<Rightarrow> jsval \<Rightarrow> string option \<Rightarrow> user \<Rightarrow> user \<Rightarrow> transaction" where
  "transfer_record e senderId recipientAccountNumber amount note sender recipient =
     \<lparr>tx_id = ''tx-'' @ uuid e, tx_type = ''transfer'',
      tx_senderId = Some senderId, tx_senderName = Some (name sender),
      tx_senderEmail = Some (email sender),
      tx_senderAccountNumber = Some (accountNumber sender),
      tx_adminId = None, tx_adminName = None,
      tx_recipientId = id' recipient, tx_recipientName = name recipient,
      tx_recipientEmail = email recipient,
      tx_recipientAccountNumber = recipientAccountNumber,
      tx_amount = amount, tx_currency = currency sender, tx_note = note,
      tx_status = ''completed'', tx_createdAt = now e\<rparr>"

text \<open>The end of both money routes (lines 241 to 247 and 310 to 316): the transaction
  is pushed onto the log as read, the two files are written, and the answer is sent.\<close>

definition finish ::
  "env \<Rightarrow> string \<Rightarrow> user list \<Rightarrow> transaction list \<Rightarrow> transaction \<Rightarrow> disk \<Rightarrow> response \<times> disk" where
  "finish e msg users transactions t d =
     (case writeBoth e users (transactions @ [t]) d of
        (ok, d') \<Rightarrow>
          if ok
          then (\<lparr>http_status = 200, success = True, body = TransactionBody t\<rparr>, d')
          else (failure 500 msg, d'))"

definition send ::
  "env \<Rightarrow> string \<Rightarrow> string \<Rightarrow> jsval \<Rightarrow> string option \<Rightarrow> string \<Rightarrow> disk \<Rightarrow>
     (response \<times> disk) option" where
  "send e senderId recipientAccountNumber amount note transactionCode d =
     (if senderId = [] \<or> recipientAccountNumber = [] \<or> falsy amount
      then Some (failure 400 ''Invalid transaction data'', d)
      else do {
        nonpositive \<leftarrow> js_le_zero amount;
        if nonpositive then Some (failure 400 ''Invalid transaction data'', d)
        else if transactionCode \<noteq> ''45242769012''
        then Some (failure 400 ''Invalid transaction code'', d)
        else
          (let users = readData (users_readable e) (USERS_FILE d) in
           case findIndex (\<lambda>u. id' u = senderId) users of
             None \<Rightarrow> Some (failure 404 ''Sender not found'', d)
           | Some i \<Rightarrow>
               (case findIndex (\<lambda>u. accountNumber u = recipientAccountNumber) users of
                  None \<Rightarrow> Some (failure 404 ''Recipient account not found'', d)
                | Some j \<Rightarrow>
                    do {
                      insufficient \<leftarrow> js_less (balance (users ! i)) amount;
                      if insufficient then Some (failure 400 ''Insufficient funds'', d)
                      else do {
                        users' \<leftarrow> update_balances users i j amount;
                        let transactions =
                          readData (transactions_readable e) (TRANSACTIONS_FILE d);
                        Some (finish e ''Failed to process transaction'' users' transactions
                                (transfer_record e senderId recipientAccountNumber amount note
                                   (users' ! i) (users' ! j)) d)
                      }
                    }))
      })"

section \<open>Funding: POST /api/admin/fund-user\<close>

text \<open>Lines 270 to 317. The transaction record of lines 294 to 308 carries
  \<^verbatim>\<open>Number.parseFloat(amount)\<close> as its amount and \<^verbatim>\<open>note || "Admin funding"\<close> as its
  note.\<close>

definition fund_record ::
  "env \<Rightarrow> string \<Rightarrow> string \<Rightarrow> int \<Rightarrow> string option \<Rightarrow> user \<Rightarrow> user \<Rightarrow> transaction" where
  "fund_record e adminId req_accountNumber parsed note admin target =
     \<lparr>tx_id = ''tx-'' @ uuid e, tx_type = ''admin-fund'',
      tx_senderId = None, tx_senderName = None, tx_senderEmail = None,
      tx_senderAccountNumber = None,
      tx_adminId = Some adminId, tx_adminName = Some (name admin),
      tx_recipientId = id' target, tx_recipientName = name target,
      tx_recipientEmail = email target,
      tx_recipientAccountNumber = req_accountNumber,
      tx_amount = Num parsed, tx_currency = currency target,
      tx_note = Some (case note of None \<Rightarrow> ''Admin funding''
                      | Some n \<Rightarrow> if n = [] then ''Admin funding'' else n),
      tx_status = ''completed'', tx_createdAt = now e\<rparr>"

text \<open>\<^verbatim>\<open>user.balance += Number.parseFloat(amount)\<close>. A \<^verbatim>\<open>NaN\<close> from \<^verbatim>\<open>parseFloat\<close> is
  outside the model.\<close>

definition fund_user ::
  "env \<Rightarrow> string \<Rightarrow> string \<Rightarrow> jsval \<Rightarrow> string option \<Rightarrow> disk \<Rightarrow> (response \<times> disk) option" where
  "fund_user e adminId req_accountNumber amount note d =
     (if adminId = [] \<or> req_accountNumber = [] \<or> falsy amount
      then Some (failure 400 ''Invalid data'', d)
      else do {
        nonpositive \<leftarrow> js_le_zero amount;
        if nonpositive then Some (failure 400 ''Invalid data'', d)
        else
          (let users = readData (users_readable e) (USERS_FILE d) in
           case findIndex (\<lambda>u. id' u = adminId \<and> role u = ''admin'') users of
             None \<Rightarrow> Some (failure 403 ''Unauthorized'', d)
           | Some a \<Rightarrow>
               (case findIndex (\<lambda>u. accountNumber u = req_accountNumber) users of
                  None \<Rightarrow> Some (failure 404 ''User account not found'', d)
                | Some j \<Rightarrow>
                    do {
                      parsed \<leftarrow> parseFloat amount;
                      (case parsed of
                         NaN \<Rightarrow> None
                       | Fin n \<Rightarrow>
                           do {
                             credited \<leftarrow> js_plus (balance (users ! j)) (Num n);
                             let users' = users[j := (users ! j)\<lparr>balance := credited\<rparr>];
                             let transactions =
                               readData (transactions_readable e) (TRANSACTIONS_FILE d);
                             Some (finish e ''Failed to fund user'' users' transactions
                                     (fund_record e adminId req_accountNumber n note
                                        (users' ! a) (users' ! j)) d)
                           })
                    }))
      })"

section \<open>Reachable states\<close>

text \<open>The files as seeded, and as any sequence of completed requests to the four
  routes that write leaves them, in any environment.\<close>

inductive reachable :: "disk \<Rightarrow> bool" where
  reachable_seed: "reachable (seed t)"
| reachable_register:
    "reachable d \<Longrightarrow> register e firstName lastName req_email req_password d = Some (r, d')
       \<Longrightarrow> reachable d'"
| reachable_delete:
    "reachable d \<Longrightarrow> delete_user e ident d = (r, d') \<Longrightarrow> reachable d'"
| reachable_send:
    "reachable d \<Longrightarrow>
       send e senderId recipientAccountNumber amount note transactionCode d = Some (r, d')
       \<Longrightarrow> reachable d'"
| reachable_fund:
    "reachable d \<Longrightarrow> fund_user e adminId req_accountNumber amount note d = Some (r, d')
       \<Longrightarrow> reachable d'"

section \<open>Stores and environments used as examples\<close>

text \<open>An environment in which every read and every write goes through.\<close>

definition env_ok :: env where
  "env_ok =
     \<lparr>users_readable = True, transactions_readable = True, users_writable = True,
      transactions_writable = True, uuid = ''7f3c'', now = ''2024-05-02T10:00:00.000Z'',
      random = (\<lambda>k. 1000000000 + k)\<rparr>"

definition alice :: user where
  "alice =
     \<lparr>id' = ''user-alice'', name = ''Alice Adams'', email = ''alice@example.com'',
      role = ''user'', accountNumber = ''1000000001'', balance = Num 100,
      currency = ''USD'', status = ''active'', createdAt = ''2024-05-01T09:00:00.000Z'',
      password = ''a-secret''\<rparr>"

definition bob :: user where
  "bob =
     \<lparr>id' = ''user-bob'', name = ''Bob Brown'', email = ''bob@example.com'',
      role = ''user'', accountNumber = ''1000000002'', balance = Num 10,
      currency = ''USD'', status = ''active'', createdAt = ''2024-05-01T09:30:00.000Z'',
      password = ''b-secret''\<rparr>"

text \<open>The seeded administrator and two registered users, and no transaction yet.\<close>

definition bank :: disk where
  "bank =
     \<lparr>USERS_FILE = [seed_admin ''2024-05-01T08:00:00.000Z'', alice, bob],
      TRANSACTIONS_FILE = []\<rparr>"



text \<open>An environment in which the transactions file cannot be read, and a store that
  already holds a transaction.\<close>

definition env_log_unreadable :: env where
  "env_log_unreadable = env_ok\<lparr>transactions_readable := False, uuid := ''9a1e''\<rparr>"

definition bank_with_history :: disk where
  "bank_with_history =
     bank\<lparr>TRANSACTIONS_FILE :=
       [transfer_record env_ok ''user-bob'' ''1000000001'' (Num 5) None bob alice]\<rparr>"

text \<open>The example store with Alice and Bob disabled.\<close>

definition frozen_bank :: disk where
  "frozen_bank =
     \<lparr>USERS_FILE = [seed_admin ''2024-05-01T08:00:00.000Z'',
                    alice\<lparr>status := ''disabled''\<rparr>, bob\<lparr>status := ''disabled''\<rparr>],
      TRANSACTIONS_FILE = []\<rparr>"


definition after_funding :: disk where
  "after_funding =
     \<lparr>USERS_FILE = [(seed_admin ''2024-05-01T08:00:00.000Z'')\<lparr>balance := Num 500000500\<rparr>],
      TRANSACTIONS_FILE =
        [fund_record env_ok ''admin-1'' ''9876543210'' 500 None
           (seed_admin ''2024-05-01T08:00:00.000Z'') (seed_admin ''2024-05-01T08:00:00.000Z'')]\<rparr>"

section \<open>Properties of a store\<close>


text \<open>The two values of \<^verbatim>\<open>type\<close> that the routes write.\<close>

definition known_type :: "transaction \<Rightarrow> bool" where
  "known_type t \<longleftrightarrow> tx_type t = ''transfer'' \<or> tx_type t = ''admin-fund''"

text \<open>Every account set to active: the store a transfer is compared with when the
  part of \<open>status\<close> is in question.\<close>

definition activate :: "disk \<Rightarrow> disk" where
  "activate d = d\<lparr>USERS_FILE := map (\<lambda>u. u\<lparr>status := ''active''\<rparr>) (USERS_FILE d)\<rparr>"

text \<open>A balance that is a number of magnitude at most \<open>2^52 - 1\<close>, so that the sum of
  two of them is in the safe range; a store in which every balance is.\<close>

definition small :: "int \<Rightarrow> bool" where
  "small n \<longleftrightarrow> - 4503599627370495 \<le> n \<and> n \<le> 4503599627370495"

fun is_number :: "jsval \<Rightarrow> bool" where
  "is_number (Num n) = small n"
| "is_number (Str s) = False"

definition numeric :: "disk \<Rightarrow> bool" where
  "numeric d = list_all (\<lambda>u. is_number (balance u)) (USERS_FILE d)"

text \<open>A balance that is a number and not below zero; a store in which every balance is.\<close>

fun nonnegative :: "jsval \<Rightarrow> bool" where
  "nonnegative (Num n) = (0 \<le> n)"
| "nonnegative (Str s) = False"

definition solvent :: "disk \<Rightarrow> bool" where
  "solvent d = list_all (\<lambda>u. nonnegative (balance u)) (USERS_FILE d)"

text \<open>The states reached when every transfer and every funding carries its amount as a
  JSON number.\<close>

inductive reachable_with_numbers :: "disk \<Rightarrow> bool" where
  numbers_seed: "reachable_with_numbers (seed t)"
| numbers_register:
    "reachable_with_numbers d \<Longrightarrow>
       register e firstName lastName req_email req_password d = Some (r, d')
       \<Longrightarrow> reachable_with_numbers d'"
| numbers_delete:
    "reachable_with_numbers d \<Longrightarrow> delete_user e ident d = (r, d')
       \<Longrightarrow> reachable_with_numbers d'"
| numbers_send:
    "reachable_with_numbers d \<Longrightarrow>
       send e senderId recipientAccountNumber (Num n) note transactionCode d = Some (r, d')
       \<Longrightarrow> reachable_with_numbers d'"
| numbers_fund:
    "reachable_with_numbers d \<Longrightarrow>
       fund_user e adminId req_accountNumber (Num n) note d = Some (r, d')
       \<Longrightarrow> reachable_with_numbers d'"

section \<open>Auxiliary facts\<close>

subsection \<open>Lists, records and the helper functions\<close>

lemmas js_eval = operand_def safe_integer_def MAX_SAFE_INTEGER_def

lemma operand_Num:
  "operand (Num n) = (if safe_integer n then Some (Fin n) else None)"
  by (simp add: operand_def)

lemma js_less_numbers:
  "js_less (Num m) (Num n) =
     (if safe_integer m \<and> safe_integer n then Some (m < n) else None)"
  by (simp add: operand_def)

lemma js_minus_numbers:
  "js_minus (Num m) (Num n) =
     (if safe_integer m \<and> safe_integer n \<and> safe_integer (m - n)
      then Some (Num (m - n)) else None)"
  by (simp add: js_minus_def operand_def)

lemma readData_False [simp]: "readData False file = []"
  by (simp add: readData_def)

lemma readData_True [simp]: "readData True file = file"
  by (simp add: readData_def)

lemma success_failure [simp]: "\<not> success (failure code msg)"
  by (simp add: failure_def)

lemma findIndex_Some:
  "findIndex p xs = Some i \<Longrightarrow> i < length xs \<and> p (xs ! i) \<and> (\<forall>k<i. \<not> p (xs ! k))"
proof (induction xs arbitrary: i)
  case Nil
  then show ?case by simp
next
  case (Cons x xs)
  show ?case
  proof (cases "p x")
    case True
    with Cons.prems show ?thesis by simp
  next
    case False
    with Cons.prems obtain i' where i': "findIndex p xs = Some i'" "i = Suc i'"
      by auto
    from Cons.IH[OF i'(1)] False i'(2) show ?thesis
      by (auto simp: less_Suc_eq_0_disj)
  qed
qed

lemma findIndex_None: "findIndex p xs = None \<longleftrightarrow> \<not> list_ex p xs"
  by (induction xs) auto

lemma findIndex_map: "findIndex p (map f xs) = findIndex (\<lambda>x. p (f x)) xs"
  by (induction xs) simp_all

lemma remove_index_keeps:
  assumes "k < length xs" "x \<in> set xs" "x \<noteq> xs ! k"
  shows "x \<in> set (take k xs @ drop (Suc k) xs)"
proof -
  from assms(1) have "xs = take k xs @ xs ! k # drop (Suc k) xs"
    by (rule id_take_nth_drop)
  then have "set xs = set (take k xs) \<union> {xs ! k} \<union> set (drop (Suc k) xs)"
    by (metis Un_insert_right append_Nil2 list.simps(15) set_append Un_assoc Un_empty_right insert_is_Un)
  with assms(2,3) show ?thesis by auto
qed


lemma list_all_update:
  "list_all P xs \<Longrightarrow> P x \<Longrightarrow> list_all P (xs[k := x])"
  by (induction xs arbitrary: k) (auto split: nat.splits)

lemma list_all_remove_index:
  "list_all P xs \<Longrightarrow> list_all P (take k xs @ drop (Suc k) xs)"
  by (auto simp: list_all_iff dest: in_set_takeD in_set_dropD)

lemma status_balance_commute:
  "(u::user)\<lparr>status := s, balance := b\<rparr> = u\<lparr>balance := b, status := s\<rparr>"
  by (cases u) simp

subsection \<open>What a completed request has gone through\<close>

text \<open>The two writes at the end of a money route, case by case.\<close>

lemma finish_cases:
  "finish e msg users transactions t d =
     (if users_writable e
      then if transactions_writable e
           then (\<lparr>http_status = 200, success = True, body = TransactionBody t\<rparr>,
                 \<lparr>USERS_FILE = users, TRANSACTIONS_FILE = transactions @ [t]\<rparr>)
           else (failure 500 msg,
                 \<lparr>USERS_FILE = users, TRANSACTIONS_FILE = TRANSACTIONS_FILE d\<rparr>)
      else (failure 500 msg, d))"
  by (simp add: finish_def writeBoth_def writeData_def)

text \<open>What a completed request to the transfer route has gone through: either it was
  turned down before any write, or both accounts were found, the balance check passed
  and the two writes were attempted.\<close>

lemma send_Some:
  assumes "send e senderId recipientAccountNumber amount note transactionCode d = Some (r, d')"
  shows "(d' = d \<and> \<not> success r) \<or>
    (\<exists>i j users'.
       users_readable e \<and> transactionCode = ''45242769012'' \<and>
       findIndex (\<lambda>u. id' u = senderId) (USERS_FILE d) = Some i \<and>
       findIndex (\<lambda>u. accountNumber u = recipientAccountNumber) (USERS_FILE d) = Some j \<and>
       js_less (balance (USERS_FILE d ! i)) amount = Some False \<and>
       update_balances (USERS_FILE d) i j amount = Some users' \<and>
       (r, d') = finish e ''Failed to process transaction'' users'
                   (readData (transactions_readable e) (TRANSACTIONS_FILE d))
                   (transfer_record e senderId recipientAccountNumber amount note
                      (users' ! i) (users' ! j)) d)"
proof (cases "users_readable e")
  case False
  with assms show ?thesis
    by (auto simp: send_def Let_def split: if_splits Option.bind_splits)
next
  case True
  with assms show ?thesis
    by (auto simp: send_def Let_def split: if_splits Option.bind_splits option.splits)
qed

text \<open>A completed request that reports success has found both accounts, passed the
  balance check and written both files.\<close>

lemma send_success:
  assumes "send e senderId recipientAccountNumber amount note transactionCode d = Some (r, d')"
    and "success r"
  shows "\<exists>i j users'.
       users_readable e \<and> users_writable e \<and> transactions_writable e \<and>
       transactionCode = ''45242769012'' \<and>
       findIndex (\<lambda>u. id' u = senderId) (USERS_FILE d) = Some i \<and>
       findIndex (\<lambda>u. accountNumber u = recipientAccountNumber) (USERS_FILE d) = Some j \<and>
       js_less (balance (USERS_FILE d ! i)) amount = Some False \<and>
       update_balances (USERS_FILE d) i j amount = Some users' \<and>
       r = \<lparr>http_status = 200, success = True,
            body = TransactionBody (transfer_record e senderId recipientAccountNumber amount
                     note (users' ! i) (users' ! j))\<rparr> \<and>
       d' = \<lparr>USERS_FILE = users',
             TRANSACTIONS_FILE = readData (transactions_readable e) (TRANSACTIONS_FILE d) @
               [transfer_record e senderId recipientAccountNumber amount note
                  (users' ! i) (users' ! j)]\<rparr>"
  using send_Some[OF assms(1)] assms(2)
  by (auto simp: finish_cases failure_def split: if_splits)

text \<open>The same for the funding route.\<close>

lemma fund_user_Some:
  assumes "fund_user e adminId req_accountNumber amount note d = Some (r, d')"
  shows "(d' = d \<and> \<not> success r) \<or>
    (\<exists>a j n credited.
       users_readable e \<and>
       findIndex (\<lambda>u. id' u = adminId \<and> role u = ''admin'') (USERS_FILE d) = Some a \<and>
       findIndex (\<lambda>u. accountNumber u = req_accountNumber) (USERS_FILE d) = Some j \<and>
       parseFloat amount = Some (Fin n) \<and>
       js_plus (balance (USERS_FILE d ! j)) (Num n) = Some credited \<and>
       (r, d') = finish e ''Failed to fund user''
                   ((USERS_FILE d)[j := (USERS_FILE d ! j)\<lparr>balance := credited\<rparr>])
                   (readData (transactions_readable e) (TRANSACTIONS_FILE d))
                   (fund_record e adminId req_accountNumber n note
                      ((USERS_FILE d)[j := (USERS_FILE d ! j)\<lparr>balance := credited\<rparr>] ! a)
                      ((USERS_FILE d)[j := (USERS_FILE d ! j)\<lparr>balance := credited\<rparr>] ! j)) d)"
proof (cases "users_readable e")
  case False
  with assms show ?thesis
    by (auto simp: fund_user_def Let_def split: if_splits Option.bind_splits)
next
  case True
  with assms show ?thesis
    by (auto simp: fund_user_def Let_def
             split: if_splits Option.bind_splits option.splits jsnum.splits)
qed

lemma fund_user_success:
  assumes "fund_user e adminId req_accountNumber amount note d = Some (r, d')"
    and "success r"
  shows "\<exists>a j n credited.
       users_readable e \<and> users_writable e \<and> transactions_writable e \<and>
       findIndex (\<lambda>u. id' u = adminId \<and> role u = ''admin'') (USERS_FILE d) = Some a \<and>
       findIndex (\<lambda>u. accountNumber u = req_accountNumber) (USERS_FILE d) = Some j \<and>
       parseFloat amount = Some (Fin n) \<and>
       js_plus (balance (USERS_FILE d ! j)) (Num n) = Some credited \<and>
       r = \<lparr>http_status = 200, success = True,
            body = TransactionBody (fund_record e adminId req_accountNumber n note
                   ((USERS_FILE d)[j := (USERS_FILE d ! j)\<lparr>balance := credited\<rparr>] ! a)
                   ((USERS_FILE d)[j := (USERS_FILE d ! j)\<lparr>balance := credited\<rparr>] ! j))\<rparr> \<and>
       d' = \<lparr>USERS_FILE = (USERS_FILE d)[j := (USERS_FILE d ! j)\<lparr>balance := credited\<rparr>],
             TRANSACTIONS_FILE = readData (transactions_readable e) (TRANSACTIONS_FILE d) @
               [fund_record e adminId req_accountNumber n note
                   ((USERS_FILE d)[j := (USERS_FILE d ! j)\<lparr>balance := credited\<rparr>] ! a)
                   ((USERS_FILE d)[j := (USERS_FILE d ! j)\<lparr>balance := credited\<rparr>] ! j)]\<rparr>"
  using fund_user_Some[OF assms(1)] assms(2)
  by (auto simp: finish_cases failure_def split: if_splits)

lemma register_Some:
  assumes "register e firstName lastName req_email req_password d = Some (r, d')"
  shows "(d' = d \<and> \<not> success r) \<or>
    (\<exists>number.
       allocate (random e) 0 (readData (users_readable e) (USERS_FILE d)) = Some number \<and>
       \<not> list_ex (\<lambda>u. email u = req_email) (readData (users_readable e) (USERS_FILE d)) \<and>
       users_writable e \<and>
       r = \<lparr>http_status = 201, success = True,
            body = UserBody (account.truncate
                     (newUser e firstName lastName req_email req_password number))\<rparr> \<and>
       d' = d\<lparr>USERS_FILE := readData (users_readable e) (USERS_FILE d) @
               [newUser e firstName lastName req_email req_password number]\<rparr>)"
  using assms
  by (auto simp: register_def Let_def writeData_def split: if_splits Option.bind_splits)

lemma delete_user_cases:
  assumes "delete_user e ident d = (r, d')"
  shows "(d' = d \<and> \<not> success r) \<or>
    (\<exists>k. k < length (USERS_FILE d) \<and> role (USERS_FILE d ! k) \<noteq> ''admin'' \<and>
       findIndex (\<lambda>u. id' u = ident) (USERS_FILE d) = Some k \<and>
       d' = d\<lparr>USERS_FILE := take k (USERS_FILE d) @ drop (Suc k) (USERS_FILE d)\<rparr>)"
proof (cases "users_readable e")
  case False
  with assms show ?thesis by (auto simp: delete_user_def)
next
  case True
  with assms show ?thesis
    by (auto simp: delete_user_def Let_def writeData_def
        split: option.splits if_splits dest: findIndex_Some)
qed

text \<open>On a store whose balances are numbers of magnitude at most \<open>2^52 - 1\<close>, a
  transfer and a funding with such a number as amount return: nothing they compute is
  outside the model.\<close>

lemma is_number_Num: "is_number v \<longleftrightarrow> (\<exists>n. v = Num n \<and> small n)"
  by (cases v) auto

lemma update_balances_numbers:
  assumes "list_all (\<lambda>u. is_number (balance u)) users" "i < length users" "j < length users"
    and "balance (users ! i) = Num a" "0 < n" "n \<le> a"
  shows "\<exists>users'. update_balances users i j (Num n) = Some users'"
proof -
  from assms(1,2,4) have a: "small a"
    by (metis list_all_length is_number_Num jsval.inject(1))
  from assms(1,3) obtain b where b: "balance (users ! j) = Num b" "small b"
    by (metis list_all_length is_number_Num)
  show ?thesis
  proof (cases "i = j")
    case True
    with a assms(2,4-6) show ?thesis
      by (simp add: update_balances_def js_minus_numbers small_def js_eval)
  next
    case False
    with a b assms(2-6) show ?thesis
      by (simp add: update_balances_def js_minus_numbers small_def js_eval)
  qed
qed

lemma send_numbers_returns:
  assumes "numeric d" "small n"
  shows "\<exists>r d'. send e senderId recipientAccountNumber (Num n) note transactionCode d = Some (r, d')"
proof -
  let ?users = "readData (users_readable e) (USERS_FILE d)"
  from assms(1) have all: "list_all (\<lambda>u. is_number (balance u)) ?users"
    by (cases "users_readable e") (simp_all add: numeric_def)
  show ?thesis
  proof (cases "findIndex (\<lambda>u. id' u = senderId) ?users")
    case None
    then show ?thesis by (simp add: send_def js_le_zero_def)
  next
    case sender: (Some i)
    show ?thesis
    proof (cases "findIndex (\<lambda>u. accountNumber u = recipientAccountNumber) ?users")
      case None
      with sender show ?thesis by (simp add: send_def js_le_zero_def)
    next
      case recipient: (Some j)
      from findIndex_Some[OF sender] findIndex_Some[OF recipient]
      have bounds: "i < length ?users" "j < length ?users" by simp_all
      from all bounds obtain a where a: "balance (?users ! i) = Num a" "small a"
        by (metis list_all_length is_number_Num)
      from a(2) assms(2) have less: "js_less (Num a) (Num n) = Some (a < n)"
        by (simp add: js_less_numbers small_def js_eval)
      show ?thesis
      proof (cases "0 < n \<and> n \<le> a")
        case True
        with update_balances_numbers[OF all bounds a(1)] obtain users' where
          "update_balances ?users i j (Num n) = Some users'" by blast
        with sender recipient a(1) less True show ?thesis
          by (simp add: send_def js_le_zero_def Let_def del: js_less.simps)
      next
        case False
        with sender recipient a(1) less show ?thesis
          by (auto simp: send_def js_le_zero_def Let_def simp del: js_less.simps)
      qed
    qed
  qed
qed

lemma fund_user_numbers_returns:
  assumes "numeric d" "small n"
  shows "\<exists>r d'. fund_user e adminId req_accountNumber (Num n) note d = Some (r, d')"
proof -
  let ?users = "readData (users_readable e) (USERS_FILE d)"
  from assms(1) have all: "list_all (\<lambda>u. is_number (balance u)) ?users"
    by (cases "users_readable e") (simp_all add: numeric_def)
  show ?thesis
  proof (cases "findIndex (\<lambda>u. accountNumber u = req_accountNumber) ?users")
    case None
    then show ?thesis
      by (simp add: fund_user_def js_le_zero_def Let_def split: option.split)
  next
    case (Some j)
    from findIndex_Some[OF Some] have "j < length ?users" by simp
    with all obtain b where b: "balance (?users ! j) = Num b" "small b"
      by (metis list_all_length is_number_Num)
    show ?thesis
    proof (cases "0 < n")
      case True
      with b(2) assms(2) have "js_plus (Num b) (Num n) = Some (Num (b + n))"
        by (simp add: small_def js_eval)
      with Some b(1) show ?thesis
        by (simp add: fund_user_def js_le_zero_def Let_def split: option.split
            del: js_plus.simps)
    next
      case False
      then show ?thesis
        by (simp add: fund_user_def js_le_zero_def)
    qed
  qed
qed

subsection \<open>The debit and the credit\<close>

lemma update_balances_Some:
  assumes "update_balances users i j amount = Some users'"
  shows "\<exists>debited credited.
     js_minus (balance (users ! i)) amount = Some debited \<and>
     js_plus (balance (users[i := (users ! i)\<lparr>balance := debited\<rparr>] ! j)) amount = Some credited \<and>
     users' = users[i := (users ! i)\<lparr>balance := debited\<rparr>,
                    j := (users[i := (users ! i)\<lparr>balance := debited\<rparr>] ! j)\<lparr>balance := credited\<rparr>]"
  using assms by (auto simp: update_balances_def Let_def split: Option.bind_splits)

lemma update_balances_length:
  "update_balances users i j amount = Some users' \<Longrightarrow> length users' = length users"
  by (auto dest: update_balances_Some)

text \<open>An entry after the two assignments is the entry before, but for its balance.\<close>

lemma update_balances_nth:
  assumes "update_balances users i j amount = Some users'"
  shows "users' ! k = (users ! k)\<lparr>balance := balance (users' ! k)\<rparr>"
proof -
  from update_balances_Some[OF assms] obtain debited credited where
    users': "users' = users[i := (users ! i)\<lparr>balance := debited\<rparr>,
                    j := (users[i := (users ! i)\<lparr>balance := debited\<rparr>] ! j)\<lparr>balance := credited\<rparr>]"
    by blast
  let ?users1 = "users[i := (users ! i)\<lparr>balance := debited\<rparr>]"
  have one: "?users1 ! m = (users ! m)\<lparr>balance := balance (?users1 ! m)\<rparr>" for m
  proof (cases "m = i \<and> i < length users")
    case True
    then show ?thesis by simp
  next
    case False
    then have "?users1 ! m = users ! m"
      by (cases "m = i") (simp_all add: list_update_beyond)
    then show ?thesis by simp
  qed
  show ?thesis
  proof (cases "k = j \<and> j < length users")
    case True
    then have "users' ! k = (?users1 ! j)\<lparr>balance := credited\<rparr>"
      by (simp add: users')
    also have "\<dots> = (users ! j)\<lparr>balance := credited\<rparr>"
      by (subst one) simp
    finally show ?thesis using True by simp
  next
    case False
    then have "users' ! k = ?users1 ! k"
      by (cases "k = j") (simp_all add: users' list_update_beyond)
    with one[of k] show ?thesis by simp
  qed
qed

lemma update_balances_other:
  assumes "update_balances users i j amount = Some users'" "k \<noteq> i" "k \<noteq> j"
  shows "users' ! k = users ! k"
  using update_balances_Some[OF assms(1)] assms(2,3) by auto

lemma update_balances_self:
  assumes "i < length users" "balance (users ! i) = Num b"
    and "0 < n" "n \<le> b" "b \<le> MAX_SAFE_INTEGER"
  shows "update_balances users i i (Num n) = Some users"
proof -
  have same: "(users ! i)\<lparr>balance := Num b\<rparr> = users ! i"
    using assms(2) by (metis account.surjective account.update_convs(6))
  from assms(3-5) have "safe_integer b" "safe_integer n" "safe_integer (b - n)"
    by (simp_all add: safe_integer_def MAX_SAFE_INTEGER_def)
  then show ?thesis
    by (simp add: update_balances_def js_minus_numbers assms(1,2) same)
qed





subsection \<open>The loop that draws an account number\<close>



subsection \<open>Values evaluated\<close>



lemma eval_ToNumber_40: "ToNumber (Str ''40'') = Some (Fin 40)"
  by code_simp

lemma eval_plus_10_40: "js_plus (Num 10) (Str ''40'') = Some (Str ''1040'')"
  by code_simp

lemma eval_ToNumber_junk: "ToNumber (Str ''-500000001abc'') = Some NaN"
  by code_simp

lemma eval_parseFloat_junk: "parseFloat (Str ''-500000001abc'') = Some (Fin (- 500000001))"
  by code_simp





section \<open>Conservation\<close>

text \<open>
  With a whole JSON number as amount and whole numbers as balances, all in the safe range
  together with the difference and the sum (outside it the model does not compute), a
  transfer between two distinct accounts that reports success debits the sender and
  credits the recipient by that number.
\<close>

lemma send_conserves_numbers:
  assumes "send e senderId recipientAccountNumber (Num n) note transactionCode d = Some (r, d')"
    and "success r"
    and "findIndex (\<lambda>u. id' u = senderId) (USERS_FILE d) = Some i"
    and "findIndex (\<lambda>u. accountNumber u = recipientAccountNumber) (USERS_FILE d) = Some j"
    and "i \<noteq> j"
    and "balance (USERS_FILE d ! i) = Num a" "balance (USERS_FILE d ! j) = Num b"
  shows "balance (USERS_FILE d' ! i) = Num (a - n) \<and> balance (USERS_FILE d' ! j) = Num (b + n)"
proof -
  from send_success[OF assms(1,2)] assms(3,4) obtain users' where
    upd: "update_balances (USERS_FILE d) i j (Num n) = Some users'" and d': "USERS_FILE d' = users'"
    by auto
  from findIndex_Some[OF assms(3)] findIndex_Some[OF assms(4)]
  have bounds: "i < length (USERS_FILE d)" "j < length (USERS_FILE d)" by simp_all
  from update_balances_Some[OF upd] assms(5-7) bounds show ?thesis
    by (auto simp: d' js_minus_numbers split: if_splits)
qed

text \<open>
  Claim C1 says that a transfer between two distinct accounts that completes leaves the
  sum of the two balances as it was, debit and credit both being the requested amount.
  The code keeps to it when the amount is a whole JSON number, both balances are whole
  numbers and nothing leaves the safe range (\<open>send_conserves_numbers\<close> above). It
  does not when the amount arrives as a JSON
  string: the handler never converts it, \<^verbatim>\<open>sender.balance -= amount\<close> subtracts the
  number the string denotes, and \<^verbatim>\<open>recipient.balance += amount\<close> concatenates. Alice, with
  a balance of 100, sends \<^verbatim>\<open>"40"\<close> to Bob, whose balance is 10: the request completes with
  status 200, Alice is left with 60 and Bob's balance is the string \<^verbatim>\<open>"1040"\<close>. The
  funding route converts the amount with \<^verbatim>\<open>Number.parseFloat\<close> before it adds.
\<close>

theorem send_string_amount_concatenates:
  "send env_ok ''user-alice'' ''1000000002'' (Str ''40'') None ''45242769012'' bank =
     Some (\<lparr>http_status = 200, success = True,
            body = TransactionBody
              (transfer_record env_ok ''user-alice'' ''1000000002'' (Str ''40'') None alice bob)\<rparr>,
           \<lparr>USERS_FILE = [seed_admin ''2024-05-01T08:00:00.000Z'',
                          alice\<lparr>balance := Num 60\<rparr>, bob\<lparr>balance := Str ''1040''\<rparr>],
            TRANSACTIONS_FILE =
              [transfer_record env_ok ''user-alice'' ''1000000002'' (Str ''40'') None alice bob]\<rparr>)"
proof -
  have forty: "operand (Str ''40'') = Some (Fin 40)"
    by (simp add: operand_def eval_ToNumber_40 safe_integer_def MAX_SAFE_INTEGER_def
        del: ToNumber.simps)
  have hundred: "operand (Num 100) = Some (Fin 100)"
    by (simp add: js_eval)
  have "js_le_zero (Str ''40'') = Some False"
    by (simp add: js_le_zero_def eval_ToNumber_40 del: ToNumber.simps)
  moreover have "js_less (Num 100) (Str ''40'') = Some False"
    by (simp add: forty hundred)
  moreover have "js_minus (Num 100) (Str ''40'') = Some (Num 60)"
    by (simp add: js_minus_def forty hundred safe_integer_def MAX_SAFE_INTEGER_def)
  ultimately show ?thesis
    by (simp add: send_def bank_def env_ok_def seed_admin_def alice_def bob_def
        update_balances_def eval_plus_10_40 finish_cases transfer_record_def
        del: js_less.simps js_plus.simps)
qed

section \<open>Balances below zero\<close>

text \<open>
  As long as every transfer and every funding carries a whole JSON number as amount and
  no balance leaves the safe range, no balance goes below zero: registration starts an
  account at 0, a transfer is turned down when the balance is less than the amount, a
  funding adds a positive number, and so every state reached that way has numbers not
  below zero as balances.
\<close>

lemma nonnegative_Num: "nonnegative v \<longleftrightarrow> (\<exists>n\<ge>0. v = Num n)"
  by (cases v) auto

lemma send_number_solvent:
  assumes "solvent d"
    and "send e senderId recipientAccountNumber (Num n) note transactionCode d = Some (r, d')"
  shows "solvent d'"
proof (cases "0 < n")
  case False
  with assms(2) have "d' = d"
    by (auto simp: send_def js_le_zero_def js_eval split: if_splits)
  with assms(1) show ?thesis by simp
next
  case positive: True
  from send_Some[OF assms(2)] show ?thesis
  proof
    assume "d' = d \<and> \<not> success r"
    with assms(1) show ?thesis by simp
  next
    assume "\<exists>i j users'.
       users_readable e \<and> transactionCode = ''45242769012'' \<and>
       findIndex (\<lambda>u. id' u = senderId) (USERS_FILE d) = Some i \<and>
       findIndex (\<lambda>u. accountNumber u = recipientAccountNumber) (USERS_FILE d) = Some j \<and>
       js_less (balance (USERS_FILE d ! i)) (Num n) = Some False \<and>
       update_balances (USERS_FILE d) i j (Num n) = Some users' \<and>
       (r, d') = finish e ''Failed to process transaction'' users'
                   (readData (transactions_readable e) (TRANSACTIONS_FILE d))
                   (transfer_record e senderId recipientAccountNumber (Num n) note
                      (users' ! i) (users' ! j)) d"
    then obtain i j users' where
      i: "findIndex (\<lambda>u. id' u = senderId) (USERS_FILE d) = Some i" and
      j: "findIndex (\<lambda>u. accountNumber u = recipientAccountNumber) (USERS_FILE d) = Some j" and
      enough: "js_less (balance (USERS_FILE d ! i)) (Num n) = Some False" and
      upd: "update_balances (USERS_FILE d) i j (Num n) = Some users'" and
      fin: "(r, d') = finish e ''Failed to process transaction'' users'
                   (readData (transactions_readable e) (TRANSACTIONS_FILE d))
                   (transfer_record e senderId recipientAccountNumber (Num n) note
                      (users' ! i) (users' ! j)) d"
      by blast
    let ?users = "USERS_FILE d"
    from findIndex_Some[OF i] findIndex_Some[OF j]
    have bounds: "i < length ?users" "j < length ?users" by simp_all
    from assms(1) have all: "list_all (\<lambda>u. nonnegative (balance u)) ?users"
      by (simp add: solvent_def)
    with bounds obtain a b where
      a: "balance (?users ! i) = Num a" "0 \<le> a" and b: "balance (?users ! j) = Num b" "0 \<le> b"
      by (metis list_all_length nonnegative_Num)
    from enough a have covered: "n \<le> a"
      by (simp add: operand_Num split: if_splits)
    from update_balances_Some[OF upd] obtain debited credited where
      debit: "js_minus (balance (?users ! i)) (Num n) = Some debited" and
      credit: "js_plus (balance (?users[i := (?users ! i)\<lparr>balance := debited\<rparr>] ! j)) (Num n) =
        Some credited" and
      users': "users' = ?users[i := (?users ! i)\<lparr>balance := debited\<rparr>,
        j := (?users[i := (?users ! i)\<lparr>balance := debited\<rparr>] ! j)\<lparr>balance := credited\<rparr>]"
      by blast
    from debit a have debited: "debited = Num (a - n)"
      by (auto simp: js_minus_numbers split: if_splits)
    have first: "list_all (\<lambda>u. nonnegative (balance u)) (?users[i := (?users ! i)\<lparr>balance := debited\<rparr>])"
      by (rule list_all_update[OF all]) (simp add: covered debited)
    have credit: "nonnegative credited"
    proof (cases "i = j")
      case True
      with credit bounds debited have "js_plus (Num (a - n)) (Num n) = Some credited"
        by simp
      then have "credited = Num a" by (auto split: if_splits)
      with a(2) show ?thesis by simp
    next
      case False
      with credit b positive show ?thesis by (auto split: if_splits)
    qed
    have "list_all (\<lambda>u. nonnegative (balance u)) users'"
      unfolding users' by (rule list_all_update[OF first]) (simp add: credit)
    with fin assms(1) show ?thesis
      by (auto simp: finish_cases solvent_def split: if_splits)
  qed
qed

lemma fund_user_number_solvent:
  assumes "solvent d"
    and "fund_user e adminId req_accountNumber (Num n) note d = Some (r, d')"
  shows "solvent d'"
proof (cases "0 < n")
  case False
  with assms(2) have "d' = d"
    by (auto simp: fund_user_def js_le_zero_def js_eval split: if_splits)
  with assms(1) show ?thesis by simp
next
  case positive: True
  from fund_user_Some[OF assms(2)] show ?thesis
  proof
    assume "d' = d \<and> \<not> success r"
    with assms(1) show ?thesis by simp
  next
    assume "\<exists>a j m credited.
       users_readable e \<and>
       findIndex (\<lambda>u. id' u = adminId \<and> role u = ''admin'') (USERS_FILE d) = Some a \<and>
       findIndex (\<lambda>u. accountNumber u = req_accountNumber) (USERS_FILE d) = Some j \<and>
       parseFloat (Num n) = Some (Fin m) \<and>
       js_plus (balance (USERS_FILE d ! j)) (Num m) = Some credited \<and>
       (r, d') = finish e ''Failed to fund user''
                   ((USERS_FILE d)[j := (USERS_FILE d ! j)\<lparr>balance := credited\<rparr>])
                   (readData (transactions_readable e) (TRANSACTIONS_FILE d))
                   (fund_record e adminId req_accountNumber m note
                      ((USERS_FILE d)[j := (USERS_FILE d ! j)\<lparr>balance := credited\<rparr>] ! a)
                      ((USERS_FILE d)[j := (USERS_FILE d ! j)\<lparr>balance := credited\<rparr>] ! j)) d"
    then obtain a j credited where
      j: "findIndex (\<lambda>u. accountNumber u = req_accountNumber) (USERS_FILE d) = Some j" and
      credited: "js_plus (balance (USERS_FILE d ! j)) (Num n) = Some credited" and
      fin: "(r, d') = finish e ''Failed to fund user''
                   ((USERS_FILE d)[j := (USERS_FILE d ! j)\<lparr>balance := credited\<rparr>])
                   (readData (transactions_readable e) (TRANSACTIONS_FILE d))
                   (fund_record e adminId req_accountNumber n note
                      ((USERS_FILE d)[j := (USERS_FILE d ! j)\<lparr>balance := credited\<rparr>] ! a)
                      ((USERS_FILE d)[j := (USERS_FILE d ! j)\<lparr>balance := credited\<rparr>] ! j)) d"
      by auto
    from assms(1) have all: "list_all (\<lambda>u. nonnegative (balance u)) (USERS_FILE d)"
      by (simp add: solvent_def)
    from findIndex_Some[OF j] have "j < length (USERS_FILE d)" by simp
    with all obtain b where "balance (USERS_FILE d ! j) = Num b" "0 \<le> b"
      by (metis list_all_length nonnegative_Num)
    with credited positive have "nonnegative credited" by (auto split: if_splits)
    then have "list_all (\<lambda>u. nonnegative (balance u))
        ((USERS_FILE d)[j := (USERS_FILE d ! j)\<lparr>balance := credited\<rparr>])"
      by (intro list_all_update[OF all]) simp
    with fin assms(1) show ?thesis
      by (auto simp: finish_cases solvent_def split: if_splits)
  qed
qed

lemma register_solvent:
  assumes "solvent d"
    and "register e firstName lastName req_email req_password d = Some (r, d')"
  shows "solvent d'"
proof -
  from assms(1) have "list_all (\<lambda>u. nonnegative (balance u)) (readData (users_readable e) (USERS_FILE d))"
    by (cases "users_readable e") (simp_all add: solvent_def)
  with register_Some[OF assms(2)] assms(1) show ?thesis
    by (auto simp: solvent_def newUser_def)
qed

lemma delete_user_solvent:
  assumes "solvent d" and "delete_user e ident d = (r, d')"
  shows "solvent d'"
proof -
  have "list_all (\<lambda>u. nonnegative (balance u))
      (take k (USERS_FILE d) @ drop (Suc k) (USERS_FILE d))" for k
    using assms(1) unfolding solvent_def by (rule list_all_remove_index)
  with delete_user_cases[OF assms(2)] assms(1) show ?thesis
    by (auto simp: solvent_def simp del: list_all_append)
qed

lemma reachable_with_numbers_solvent: "reachable_with_numbers d \<Longrightarrow> solvent d"
proof (induction rule: reachable_with_numbers.induct)
  case (numbers_seed t)
  show ?case by (simp add: solvent_def seed_def seed_admin_def)
next
  case (numbers_register d e firstName lastName req_email req_password r d')
  then show ?case by (blast intro: register_solvent)
next
  case (numbers_delete d e ident r d')
  then show ?case by (blast intro: delete_user_solvent)
next
  case (numbers_send d e senderId recipientAccountNumber n memo transactionCode r d')
  then show ?case by (blast intro: send_number_solvent)
next
  case (numbers_fund d e adminId req_accountNumber n memo r d')
  then show ?case by (blast intro: fund_user_number_solvent)
qed

text \<open>
  Claim C2 says that no reachable state has a negative balance, funding crediting
  positive amounts only. The funding route checks \<^verbatim>\<open>amount <= 0\<close> on the value as it
  arrived and then adds \<^verbatim>\<open>Number.parseFloat(amount)\<close>. For the string
  \<^verbatim>\<open>"-500000001abc"\<close> the comparison is a comparison with \<^verbatim>\<open>NaN\<close> and is false, so the
  request passes the check, and \<^verbatim>\<open>parseFloat\<close> reads \<open>-500000001\<close> from it. Sent to the
  seeded store in the name of the administrator, for the administrator's own account,
  the request completes with status 200 and leaves the balance at \<open>-1\<close>, in a state
  that is reachable.
\<close>

theorem fund_user_negative_balance:
  "fund_user env_ok ''admin-1'' ''9876543210'' (Str ''-500000001abc'') None
     (seed ''2024-05-01T08:00:00.000Z'') =
     Some (\<lparr>http_status = 200, success = True,
            body = TransactionBody
              (fund_record env_ok ''admin-1'' ''9876543210'' (- 500000001) None
                 (seed_admin ''2024-05-01T08:00:00.000Z'') (seed_admin ''2024-05-01T08:00:00.000Z''))\<rparr>,
           \<lparr>USERS_FILE = [(seed_admin ''2024-05-01T08:00:00.000Z'')\<lparr>balance := Num (- 1)\<rparr>],
            TRANSACTIONS_FILE =
              [fund_record env_ok ''admin-1'' ''9876543210'' (- 500000001) None
                 (seed_admin ''2024-05-01T08:00:00.000Z'') (seed_admin ''2024-05-01T08:00:00.000Z'')]\<rparr>) \<and>
   reachable
     \<lparr>USERS_FILE = [(seed_admin ''2024-05-01T08:00:00.000Z'')\<lparr>balance := Num (- 1)\<rparr>],
      TRANSACTIONS_FILE =
        [fund_record env_ok ''admin-1'' ''9876543210'' (- 500000001) None
           (seed_admin ''2024-05-01T08:00:00.000Z'') (seed_admin ''2024-05-01T08:00:00.000Z'')]\<rparr>"
proof -
  have "js_le_zero (Str ''-500000001abc'') = Some False"
    by (simp add: js_le_zero_def js_eval eval_ToNumber_junk del: ToNumber.simps)
  then have run: "fund_user env_ok ''admin-1'' ''9876543210'' (Str ''-500000001abc'') None
     (seed ''2024-05-01T08:00:00.000Z'') =
     Some (\<lparr>http_status = 200, success = True,
            body = TransactionBody
              (fund_record env_ok ''admin-1'' ''9876543210'' (- 500000001) None
                 (seed_admin ''2024-05-01T08:00:00.000Z'') (seed_admin ''2024-05-01T08:00:00.000Z''))\<rparr>,
           \<lparr>USERS_FILE = [(seed_admin ''2024-05-01T08:00:00.000Z'')\<lparr>balance := Num (- 1)\<rparr>],
            TRANSACTIONS_FILE =
              [fund_record env_ok ''admin-1'' ''9876543210'' (- 500000001) None
                 (seed_admin ''2024-05-01T08:00:00.000Z'') (seed_admin ''2024-05-01T08:00:00.000Z'')]\<rparr>)"
    by (simp add: fund_user_def seed_def env_ok_def seed_admin_def eval_parseFloat_junk
        finish_cases fund_record_def safe_integer_def MAX_SAFE_INTEGER_def
        del: parseFloat.simps)
  from reachable_fund[OF reachable_seed run] run show ?thesis by simp
qed

section \<open>A write that fails\<close>




section \<open>Sender and recipient the same account\<close>

text \<open>
  Claim C4 says that a transfer whose sender id and recipient account number resolve to
  one account fails with SenderEqualsRecipient, changes no balance and appends no
  transaction. The handler has no such check. Alice sends 40 to her own account number:
  the request completes with status 200 and a transaction from Alice to Alice is
  appended; her balance is debited and credited and ends where it was.
\<close>

theorem send_to_self_completes:
  "send env_ok ''user-alice'' ''1000000001'' (Num 40) None ''45242769012'' bank =
     Some (\<lparr>http_status = 200, success = True,
            body = TransactionBody
              (transfer_record env_ok ''user-alice'' ''1000000001'' (Num 40) None alice alice)\<rparr>,
           \<lparr>USERS_FILE = [seed_admin ''2024-05-01T08:00:00.000Z'', alice, bob],
            TRANSACTIONS_FILE =
              [transfer_record env_ok ''user-alice'' ''1000000001'' (Num 40) None alice alice]\<rparr>) \<and>
   id' alice = ''user-alice'' \<and> accountNumber alice = ''1000000001''"
  by (simp add: send_def bank_def env_ok_def seed_admin_def alice_def
      bob_def js_le_zero_def js_eval js_minus_def update_balances_def finish_cases transfer_record_def)

text \<open>
  Claim C4, as the code has it, for whole numbers in the range where the arithmetic of
  doubles is exact. A transfer of a positive whole number \<open>n\<close> from an account to
  itself, the balance being a whole number \<open>b\<close> with \<open>n \<le> b \<le> 2^53 - 1\<close>, is not
  turned down. The debit leaves \<open>b - n\<close> and the credit restores \<open>b\<close>, both without
  rounding, so the users file keeps its content whatever the writes do; when both writes
  go through, the request reports success and the transactions file is the log as read
  followed by one transfer whose sender and recipient are that account. Nothing is said
  of an amount or a balance with a fraction, nor of a balance above \<open>2^53 - 1\<close>:
  there the debit and the credit round, and the balance written need not be the balance
  read.
\<close>

theorem send_to_self:
  assumes "senderId \<noteq> []" "recipientAccountNumber \<noteq> []"
    and "findIndex (\<lambda>u. id' u = senderId) (readData (users_readable e) (USERS_FILE d)) = Some i"
    and "findIndex (\<lambda>u. accountNumber u = recipientAccountNumber)
           (readData (users_readable e) (USERS_FILE d)) = Some i"
    and "balance (USERS_FILE d ! i) = Num b" "0 < n" "n \<le> b" "b \<le> MAX_SAFE_INTEGER"
  shows "\<exists>r d'.
     send e senderId recipientAccountNumber (Num n) note ''45242769012'' d = Some (r, d') \<and>
     USERS_FILE d' = USERS_FILE d \<and>
     (users_writable e \<and> transactions_writable e \<longrightarrow>
        success r \<and>
        TRANSACTIONS_FILE d' =
          readData (transactions_readable e) (TRANSACTIONS_FILE d) @
          [transfer_record e senderId recipientAccountNumber (Num n) note
             (USERS_FILE d ! i) (USERS_FILE d ! i)])"
proof -
  have readable: "users_readable e"
    using assms(3) by (cases "users_readable e") simp_all
  with findIndex_Some[OF assms(3)] have i: "i < length (USERS_FILE d)" by simp
  from update_balances_self[OF i assms(5-8)]
  have upd: "update_balances (USERS_FILE d) i i (Num n) = Some (USERS_FILE d)" .
  from assms(6-8) have safe: "safe_integer b" "safe_integer n"
    by (simp_all add: safe_integer_def MAX_SAFE_INTEGER_def)
  from assms(1-7) readable upd safe show ?thesis
    by (simp add: send_def js_le_zero_def operand_Num finish_cases Let_def)
qed

text \<open>Alice, at index 1 of the example store, sends 40 of her 100 to herself.\<close>

theorem send_to_self_witness:
  "\<exists>r d'.
     send env_ok ''user-alice'' ''1000000001'' (Num 40) None ''45242769012'' bank = Some (r, d') \<and>
     USERS_FILE d' = USERS_FILE bank \<and> success r \<and>
     TRANSACTIONS_FILE d' =
       [transfer_record env_ok ''user-alice'' ''1000000001'' (Num 40) None alice alice]"
proof -
  have sender: "findIndex (\<lambda>u. id' u = ''user-alice'')
      (readData (users_readable env_ok) (USERS_FILE bank)) = Some 1"
    by (simp add: env_ok_def bank_def seed_admin_def alice_def)
  have recipient: "findIndex (\<lambda>u. accountNumber u = ''1000000001'')
      (readData (users_readable env_ok) (USERS_FILE bank)) = Some 1"
    by (simp add: env_ok_def bank_def seed_admin_def alice_def)
  have funds: "balance (USERS_FILE bank ! 1) = Num 100"
    by (simp add: bank_def alice_def)
  have env: "users_writable env_ok \<and> transactions_writable env_ok \<and>
      readData (transactions_readable env_ok) (TRANSACTIONS_FILE bank) = [] \<and>
      USERS_FILE bank ! 1 = alice"
    by (simp add: env_ok_def bank_def)
  from send_to_self [OF _ _ sender recipient funds, of 40 None] env show ?thesis
    by (simp add: MAX_SAFE_INTEGER_def)
qed

section \<open>The transaction a funding appends\<close>

lemma known_type_records [simp]:
  "known_type (transfer_record e senderId recipientAccountNumber amount memo sender recipient)"
  "known_type (fund_record e adminId req_accountNumber n memo admin target)"
  by (simp_all add: known_type_def transfer_record_def fund_record_def)

lemma reachable_known_types: "reachable d \<Longrightarrow> list_all known_type (TRANSACTIONS_FILE d)"
proof (induction rule: reachable.induct)
  case (reachable_seed t)
  show ?case by (simp add: seed_def)
next
  case (reachable_register d e firstName lastName req_email req_password r d')
  from register_Some[OF reachable_register.hyps(2)] reachable_register.IH show ?case
    by auto
next
  case (reachable_delete d e ident r d')
  from delete_user_cases[OF reachable_delete.hyps(2)] reachable_delete.IH show ?case
    by auto
next
  case (reachable_send d e senderId recipientAccountNumber amount memo transactionCode r d')
  from reachable_send.IH
  have "list_all known_type (readData (transactions_readable e) (TRANSACTIONS_FILE d))"
    by (cases "transactions_readable e") simp_all
  with send_Some[OF reachable_send.hyps(2)] reachable_send.IH show ?case
    by (auto simp: finish_cases split: if_splits)
next
  case (reachable_fund d e adminId req_accountNumber amount memo r d')
  from reachable_fund.IH
  have "list_all known_type (readData (transactions_readable e) (TRANSACTIONS_FILE d))"
    by (cases "transactions_readable e") simp_all
  with fund_user_Some[OF reachable_fund.hyps(2)] reachable_fund.IH show ?case
    by (auto simp: finish_cases split: if_splits)
qed

text \<open>
  Claim C5 says that a successful funding appends one transaction whose type is
  \<^verbatim>\<open>mint\<close>, with no \<^verbatim>\<open>senderId\<close>, and credits the target by the amount. The route writes
  the type \<^verbatim>\<open>admin-fund\<close>; \<^verbatim>\<open>mint\<close> occurs nowhere in the code. The administrator funds
  Bob, whose balance is 10, with 500: Bob has 510 afterwards, and the one transaction
  appended has type \<^verbatim>\<open>admin-fund\<close>.
\<close>

theorem fund_user_type_is_admin_fund:
  "fund_user env_ok ''admin-1'' ''1000000002'' (Num 500) None bank =
     Some (\<lparr>http_status = 200, success = True,
            body = TransactionBody
              (fund_record env_ok ''admin-1'' ''1000000002'' 500 None
                 (seed_admin ''2024-05-01T08:00:00.000Z'') bob)\<rparr>,
           \<lparr>USERS_FILE = [seed_admin ''2024-05-01T08:00:00.000Z'', alice,
                          bob\<lparr>balance := Num 510\<rparr>],
            TRANSACTIONS_FILE =
              [fund_record env_ok ''admin-1'' ''1000000002'' 500 None
                 (seed_admin ''2024-05-01T08:00:00.000Z'') bob]\<rparr>) \<and>
   tx_type (fund_record env_ok ''admin-1'' ''1000000002'' 500 None
              (seed_admin ''2024-05-01T08:00:00.000Z'') bob) = ''admin-fund'' \<and>
   tx_type (fund_record env_ok ''admin-1'' ''1000000002'' 500 None
              (seed_admin ''2024-05-01T08:00:00.000Z'') bob) \<noteq> ''mint''"
  by (simp add: fund_user_def bank_def env_ok_def seed_admin_def alice_def bob_def
      js_le_zero_def js_eval finish_cases fund_record_def)

text \<open>
  Claim C5, as the code has it. A funding that reports success writes the log as read
  (the stored log, or the empty one when the file cannot be read) followed by exactly
  one transaction, the one it sends back: its type is \<^verbatim>\<open>admin-fund\<close>, it has no
  \<^verbatim>\<open>senderId\<close> and names the administrator in \<^verbatim>\<open>adminId\<close>. Its amount is the value
  \<^verbatim>\<open>Number.parseFloat\<close> reads from the request, which is the whole number \<open>n\<close> the
  request denotes when \<open>n\<close> is of magnitude at most \<open>2^53 - 1\<close>. The balance of the
  target is the old balance \<^verbatim>\<open>+\<close> that value: when the old balance is a whole number
  \<open>b\<close>, and \<open>b\<close>, \<open>n\<close> and \<open>b + n\<close> are all of magnitude at most \<open>2^53 - 1\<close>,
  it is \<open>b + n\<close>. Nothing is said of the amount stored or of the sum for fractions or
  beyond that range, where the conversion and the addition round. In every reachable
  state each transaction has type \<^verbatim>\<open>transfer\<close> or \<^verbatim>\<open>admin-fund\<close>.
\<close>

theorem fund_user_appends_admin_fund:
  "(fund_user e adminId req_accountNumber amount note d = Some (r, d') \<and> success r \<longrightarrow>
     (\<exists>t j n.
        TRANSACTIONS_FILE d' = readData (transactions_readable e) (TRANSACTIONS_FILE d) @ [t] \<and>
        body r = TransactionBody t \<and>
        tx_type t = ''admin-fund'' \<and> tx_senderId t = None \<and> tx_adminId t = Some adminId \<and>
        findIndex (\<lambda>u. accountNumber u = req_accountNumber) (USERS_FILE d) = Some j \<and>
        parseFloat amount = Some (Fin n) \<and>
        (safe_integer n \<longrightarrow> tx_amount t = Num n) \<and>
        js_plus (balance (USERS_FILE d ! j)) (Num n) = Some (balance (USERS_FILE d' ! j)) \<and>
        (\<forall>b. balance (USERS_FILE d ! j) = Num b \<and>
             safe_integer b \<and> safe_integer n \<and> safe_integer (b + n) \<longrightarrow>
             balance (USERS_FILE d' ! j) = Num (b + n)))) \<and>
   (reachable d0 \<longrightarrow>
      list_all (\<lambda>t. tx_type t = ''transfer'' \<or> tx_type t = ''admin-fund'')
        (TRANSACTIONS_FILE d0))"
proof (intro conjI impI)
  assume "fund_user e adminId req_accountNumber amount note d = Some (r, d') \<and> success r"
  then have run: "fund_user e adminId req_accountNumber amount note d = Some (r, d')"
    and ok: "success r"
    by simp_all
  from fund_user_success[OF run ok] obtain a j n credited where
    j: "findIndex (\<lambda>u. accountNumber u = req_accountNumber) (USERS_FILE d) = Some j" and
    n: "parseFloat amount = Some (Fin n)" and
    credited: "js_plus (balance (USERS_FILE d ! j)) (Num n) = Some credited" and
    r: "body r = TransactionBody (fund_record e adminId req_accountNumber n note
                   ((USERS_FILE d)[j := (USERS_FILE d ! j)\<lparr>balance := credited\<rparr>] ! a)
                   ((USERS_FILE d)[j := (USERS_FILE d ! j)\<lparr>balance := credited\<rparr>] ! j))" and
    d': "d' = \<lparr>USERS_FILE = (USERS_FILE d)[j := (USERS_FILE d ! j)\<lparr>balance := credited\<rparr>],
             TRANSACTIONS_FILE = readData (transactions_readable e) (TRANSACTIONS_FILE d) @
               [fund_record e adminId req_accountNumber n note
                   ((USERS_FILE d)[j := (USERS_FILE d ! j)\<lparr>balance := credited\<rparr>] ! a)
                   ((USERS_FILE d)[j := (USERS_FILE d ! j)\<lparr>balance := credited\<rparr>] ! j)]\<rparr>"
    by auto
  from findIndex_Some[OF j] have "j < length (USERS_FILE d)" by simp
  then have bal: "balance (USERS_FILE d' ! j) = credited"
    by (simp add: d')
  show "\<exists>t j n.
        TRANSACTIONS_FILE d' = readData (transactions_readable e) (TRANSACTIONS_FILE d) @ [t] \<and>
        body r = TransactionBody t \<and>
        tx_type t = ''admin-fund'' \<and> tx_senderId t = None \<and> tx_adminId t = Some adminId \<and>
        findIndex (\<lambda>u. accountNumber u = req_accountNumber) (USERS_FILE d) = Some j \<and>
        parseFloat amount = Some (Fin n) \<and>
        (safe_integer n \<longrightarrow> tx_amount t = Num n) \<and>
        js_plus (balance (USERS_FILE d ! j)) (Num n) = Some (balance (USERS_FILE d' ! j)) \<and>
        (\<forall>b. balance (USERS_FILE d ! j) = Num b \<and>
             safe_integer b \<and> safe_integer n \<and> safe_integer (b + n) \<longrightarrow>
             balance (USERS_FILE d' ! j) = Num (b + n))"
    apply (rule exI[of _ "fund_record e adminId req_accountNumber n note
                   ((USERS_FILE d)[j := (USERS_FILE d ! j)\<lparr>balance := credited\<rparr>] ! a)
                   ((USERS_FILE d)[j := (USERS_FILE d ! j)\<lparr>balance := credited\<rparr>] ! j)"])
    apply (rule exI[of _ j])
    apply (rule exI[of _ n])
    using j n credited r bal
    apply (auto simp: d' fund_record_def split: if_splits)
    done
next
  assume "reachable d0"
  from reachable_known_types[OF this]
  show "list_all (\<lambda>t. tx_type t = ''transfer'' \<or> tx_type t = ''admin-fund'')
        (TRANSACTIONS_FILE d0)"
    by (simp add: known_type_def[abs_def])
qed

text \<open>The administrator funds the administrator's own account with 500 on the seeded
  store: the balance goes from 500000000 to 500000500, and the state reached holds one
  transaction, of type \<^verbatim>\<open>admin-fund\<close>.\<close>

theorem fund_user_appends_admin_fund_witness:
  "reachable after_funding \<and>
   balance (USERS_FILE after_funding ! 0) = Num (500000000 + 500) \<and>
   (\<exists>t. TRANSACTIONS_FILE after_funding = [t] \<and> tx_type t = ''admin-fund'' \<and>
        tx_senderId t = None) \<and>
   list_all (\<lambda>t. tx_type t = ''transfer'' \<or> tx_type t = ''admin-fund'')
     (TRANSACTIONS_FILE after_funding)"
proof -
  have run: "fund_user env_ok ''admin-1'' ''9876543210'' (Num 500) None
      (seed ''2024-05-01T08:00:00.000Z'') =
      Some (\<lparr>http_status = 200, success = True,
             body = TransactionBody
               (fund_record env_ok ''admin-1'' ''9876543210'' 500 None
                  (seed_admin ''2024-05-01T08:00:00.000Z'')
                  (seed_admin ''2024-05-01T08:00:00.000Z''))\<rparr>,
            after_funding)"
    by (simp add: fund_user_def seed_def env_ok_def seed_admin_def js_le_zero_def js_eval
        finish_cases fund_record_def after_funding_def)
  have reach: "reachable after_funding"
    by (rule reachable_fund[OF reachable_seed run])
  note here = fund_user_appends_admin_fund
    [where e = env_ok and adminId = "''admin-1''" and req_accountNumber = "''9876543210''"
       and amount = "Num 500" and ?note = None and d = "seed ''2024-05-01T08:00:00.000Z''"
       and d' = after_funding and ?d0.0 = after_funding]
  from here[THEN conjunct1, THEN mp, OF conjI, OF run] obtain t j n where
    t: "TRANSACTIONS_FILE after_funding =
          readData (transactions_readable env_ok)
            (TRANSACTIONS_FILE (seed ''2024-05-01T08:00:00.000Z'')) @ [t]"
      "tx_type t = ''admin-fund''" "tx_senderId t = None" and
    j: "findIndex (\<lambda>u. accountNumber u = ''9876543210'')
          (USERS_FILE (seed ''2024-05-01T08:00:00.000Z'')) = Some j" and
    n: "parseFloat (Num 500) = Some (Fin n)" and
    credit: "\<forall>b. balance (USERS_FILE (seed ''2024-05-01T08:00:00.000Z'') ! j) = Num b \<and>
        safe_integer b \<and> safe_integer n \<and> safe_integer (b + n) \<longrightarrow>
        balance (USERS_FILE after_funding ! j) = Num (b + n)"
    by auto
  from j have "j = 0" by (simp add: seed_def seed_admin_def)
  moreover from n have "n = 500" by simp
  ultimately have "balance (USERS_FILE after_funding ! 0) = Num (500000000 + 500)"
    using credit by (simp add: seed_def seed_admin_def safe_integer_def MAX_SAFE_INTEGER_def)
  moreover from t have "\<exists>t. TRANSACTIONS_FILE after_funding = [t] \<and> tx_type t = ''admin-fund'' \<and>
        tx_senderId t = None"
    by (simp add: seed_def env_ok_def)
  moreover from here[THEN conjunct2, THEN mp, OF reach]
  have "list_all (\<lambda>t. tx_type t = ''transfer'' \<or> tx_type t = ''admin-fund'')
     (TRANSACTIONS_FILE after_funding)" .
  ultimately show ?thesis using reach by blast
qed

section \<open>Disabled accounts\<close>

lemma update_balances_map_status:
  assumes "i < length users" "j < length users"
  shows "update_balances (map (\<lambda>u. u\<lparr>status := s\<rparr>) users) i j amount =
         map_option (map (\<lambda>u. u\<lparr>status := s\<rparr>)) (update_balances users i j amount)"
proof -
  let ?g = "\<lambda>u::user. u\<lparr>status := s\<rparr>"
  have bal: "balance (map ?g xs ! k) = balance (xs ! k)" if "k < length xs" for xs k
    using that by simp
  have step: "(map ?g xs)[k := (map ?g xs ! k)\<lparr>balance := b\<rparr>] =
      map ?g (xs[k := (xs ! k)\<lparr>balance := b\<rparr>])" if "k < length xs" for xs k b
    using that by (simp add: map_update status_balance_commute)
  show ?thesis
  proof (cases "js_minus (balance (users ! i)) amount")
    case None
    with assms show ?thesis by (simp add: update_balances_def)
  next
    case (Some debited)
    let ?users1 = "users[i := (users ! i)\<lparr>balance := debited\<rparr>]"
    have j1: "j < length ?users1" using assms by simp
    have "update_balances (map ?g users) i j amount =
        js_plus (balance (map ?g ?users1 ! j)) amount \<bind>
          (\<lambda>credited. Some ((map ?g ?users1)[j := (map ?g ?users1 ! j)\<lparr>balance := credited\<rparr>]))"
      unfolding update_balances_def Let_def
      by (simp only: bal[OF assms(1)] Some step[OF assms(1)] Option.bind.simps)
    also have "\<dots> = js_plus (balance (?users1 ! j)) amount \<bind>
          (\<lambda>credited. Some (map ?g (?users1[j := (?users1 ! j)\<lparr>balance := credited\<rparr>])))"
      by (simp only: bal[OF j1] step[OF j1])
    also have "\<dots> = map_option (map ?g) (update_balances users i j amount)"
      unfolding update_balances_def Let_def
      by (cases "js_plus (balance (?users1 ! j)) amount") (simp_all add: Some del: map_update)
    finally show ?thesis .
  qed
qed

lemma finish_activate:
  "finish e msg (map (\<lambda>u. u\<lparr>status := ''active''\<rparr>) users) transactions t (activate d) =
     (case finish e msg users transactions t d of (r, d') \<Rightarrow> (r, activate d'))"
  by (simp add: finish_cases activate_def)

lemma transfer_record_status:
  "transfer_record e senderId recipientAccountNumber amount note
     (sender\<lparr>status := s\<rparr>) (recipient\<lparr>status := s'\<rparr>) =
   transfer_record e senderId recipientAccountNumber amount note sender recipient"
  by (simp add: transfer_record_def)

text \<open>
  Claim C6 says that a transfer is rejected when the sender or the recipient has status
  \<^verbatim>\<open>disabled\<close>. No route reads the field: the seed and the registration write
  \<^verbatim>\<open>active\<close>, and that is its only use. With Alice and Bob both disabled in the users
  file, Alice sends 40 to Bob and the request completes with status 200, Alice at 60 and
  Bob at 50.
\<close>

theorem send_between_disabled_accounts:
  "send env_ok ''user-alice'' ''1000000002'' (Num 40) None ''45242769012'' frozen_bank =
     Some (\<lparr>http_status = 200, success = True,
            body = TransactionBody
              (transfer_record env_ok ''user-alice'' ''1000000002'' (Num 40) None alice bob)\<rparr>,
           \<lparr>USERS_FILE = [seed_admin ''2024-05-01T08:00:00.000Z'',
                          alice\<lparr>balance := Num 60, status := ''disabled''\<rparr>,
                          bob\<lparr>balance := Num 50, status := ''disabled''\<rparr>],
            TRANSACTIONS_FILE =
              [transfer_record env_ok ''user-alice'' ''1000000002'' (Num 40) None alice bob]\<rparr>) \<and>
   map status (USERS_FILE frozen_bank) = [''active'', ''disabled'', ''disabled'']"
  by (simp add: send_def frozen_bank_def env_ok_def seed_admin_def alice_def bob_def
      js_le_zero_def js_eval js_minus_def update_balances_def finish_cases transfer_record_def)

text \<open>
  Claim C6, as the code has it: the status of an account plays no part in a transfer.
  A request sent to a store gets the answer, and leaves the balances and the log, that
  the same request gets from the store with every account set to active; a disabled
  sender or recipient is treated exactly as an active one.
\<close>

theorem send_ignores_status:
  "send e senderId recipientAccountNumber amount note transactionCode (activate d) =
     map_option (\<lambda>(r, d'). (r, activate d'))
       (send e senderId recipientAccountNumber amount note transactionCode d)"
proof -
  let ?f = "\<lambda>u::user. u\<lparr>status := ''active''\<rparr>"
  let ?users = "readData (users_readable e) (USERS_FILE d)"
  have users: "readData (users_readable e) (USERS_FILE (activate d)) = map ?f ?users"
    by (simp add: activate_def readData_def)
  have log: "TRANSACTIONS_FILE (activate d) = TRANSACTIONS_FILE d"
    by (simp add: activate_def)
  show ?thesis
  proof (cases "findIndex (\<lambda>u. id' u = senderId) ?users")
    case None
    then show ?thesis
      by (simp add: send_def users findIndex_map Let_def split: Option.bind_split)
  next
    case sender: (Some i)
    show ?thesis
    proof (cases "findIndex (\<lambda>u. accountNumber u = recipientAccountNumber) ?users")
      case None
      with sender show ?thesis
        by (simp add: send_def users findIndex_map Let_def split: Option.bind_split)
    next
      case recipient: (Some j)
      from findIndex_Some[OF sender] findIndex_Some[OF recipient]
      have bounds: "i < length ?users" "j < length ?users" by simp_all
      have upd: "update_balances (map ?f ?users) i j amount =
          map_option (map ?f) (update_balances ?users i j amount)"
        using bounds by (rule update_balances_map_status)
      show ?thesis
      proof (cases "update_balances ?users i j amount")
        case None
        with sender recipient bounds upd show ?thesis
          by (simp add: send_def users findIndex_map Let_def split: Option.bind_split)
      next
        case (Some users')
        from update_balances_length[OF Some] bounds
        have bounds': "i < length users'" "j < length users'" by simp_all
        with sender recipient bounds upd Some show ?thesis
          by (simp add: send_def users log findIndex_map Let_def finish_activate
              transfer_record_status split: Option.bind_split)
      qed
    qed
  qed
qed

section \<open>A wrong transaction code\<close>

text \<open>Whatever the rest of the request, with a wrong transaction code no request
  reports success and none changes a file.\<close>

lemma send_wrong_code_changes_nothing:
  assumes "transactionCode \<noteq> ''45242769012''"
    and "send e senderId recipientAccountNumber amount note transactionCode d = Some (r, d')"
  shows "d' = d \<and> \<not> success r"
  using send_Some[OF assms(2)] assms(1) by auto

text \<open>
  Claim C7. A transfer request with a transaction code other than the configured
  \<^verbatim>\<open>45242769012\<close> fails without touching the state. When it names a sender and a
  recipient account number and carries a positive amount, it is turned down with status
  400 and the message ``Invalid transaction code'' (the failure the specification calls
  Unauthorized), and the answer is given before either file is read: it is the same for
  every content of the files and every environment, and the files are returned as they
  were. Whatever else the request carries, it does not report success and both files
  are as before, so no balance changes and no transaction is created.
\<close>

theorem send_wrong_code_unauthorized:
  assumes "transactionCode \<noteq> ''45242769012''"
  shows "(senderId \<noteq> [] \<and> recipientAccountNumber \<noteq> [] \<and> 0 < n \<longrightarrow>
            send e senderId recipientAccountNumber (Num n) note transactionCode d =
              Some (failure 400 ''Invalid transaction code'', d)) \<and>
         (send e senderId recipientAccountNumber amount note transactionCode d = Some (r, d')
            \<longrightarrow> d' = d \<and> \<not> success r)"
proof (intro conjI impI)
  assume "senderId \<noteq> [] \<and> recipientAccountNumber \<noteq> [] \<and> 0 < n"
  with assms show "send e senderId recipientAccountNumber (Num n) note transactionCode d =
      Some (failure 400 ''Invalid transaction code'', d)"
    by (simp add: send_def js_le_zero_def js_eval)
next
  assume "send e senderId recipientAccountNumber amount note transactionCode d = Some (r, d')"
  with assms show "d' = d" "\<not> success r"
    by (auto dest: send_wrong_code_changes_nothing)
qed

text \<open>Alice sends 40 to Bob with the code \<^verbatim>\<open>00000000000\<close>.\<close>

theorem send_wrong_code_unauthorized_witness:
  "''00000000000'' \<noteq> ''45242769012'' \<and>
   send env_ok ''user-alice'' ''1000000002'' (Num 40) None ''00000000000'' bank =
     Some (failure 400 ''Invalid transaction code'', bank) \<and>
   \<not> success (failure 400 ''Invalid transaction code'')"
proof -
  have wrong: "''00000000000'' \<noteq> ''45242769012''" by simp
  note here = send_wrong_code_unauthorized
    [OF wrong, where senderId = "''user-alice''" and recipientAccountNumber = "''1000000002''"
       and n = 40 and e = env_ok and ?note = None and d = bank and amount = "Num 40"
       and r = "failure 400 ''Invalid transaction code''" and d' = bank]
  from here[THEN conjunct1] have run:
    "send env_ok ''user-alice'' ''1000000002'' (Num 40) None ''00000000000'' bank =
       Some (failure 400 ''Invalid transaction code'', bank)"
    by simp
  from here[THEN conjunct2, THEN mp, OF run] run wrong show ?thesis
    by simp
qed

section \<open>Deleting an administrator\<close>

text \<open>
  Claim C8. A delete request whose id resolves to an account with role \<open>admin\<close> is
  answered 403 ``Cannot delete admin user'' and leaves both files as they were.
  Consequently no delete request, whatever it targets and whatever the environment,
  removes an administrator: every account with role \<open>admin\<close> in the users file
  is still there afterwards.
\<close>

theorem delete_admin_forbidden:
  "(findIndex (\<lambda>u. id' u = ident) (readData (users_readable e) (USERS_FILE d)) = Some i \<and>
    role (readData (users_readable e) (USERS_FILE d) ! i) = ''admin''
    \<longrightarrow> delete_user e ident d = (failure 403 ''Cannot delete admin user'', d)) \<and>
   (u \<in> set (USERS_FILE d) \<and> role u = ''admin''
    \<longrightarrow> u \<in> set (USERS_FILE (snd (delete_user e ident d))))"
proof (intro conjI impI)
  assume "findIndex (\<lambda>u. id' u = ident) (readData (users_readable e) (USERS_FILE d)) = Some i \<and>
    role (readData (users_readable e) (USERS_FILE d) ! i) = ''admin''"
  then show "delete_user e ident d = (failure 403 ''Cannot delete admin user'', d)"
    by (simp add: delete_user_def)
next
  assume u: "u \<in> set (USERS_FILE d) \<and> role u = ''admin''"
  let ?users = "readData (users_readable e) (USERS_FILE d)"
  show "u \<in> set (USERS_FILE (snd (delete_user e ident d)))"
  proof (cases "findIndex (\<lambda>u. id' u = ident) ?users")
    case None
    with u show ?thesis by (simp add: delete_user_def)
  next
    case (Some k)
    show ?thesis
    proof (cases "role (?users ! k) = ''admin'' \<or> \<not> users_writable e")
      case True
      with Some u show ?thesis by (auto simp: delete_user_def writeData_def Let_def)
    next
      case False
      then have readable: "users_readable e"
        using Some by (cases "users_readable e") simp_all
      from findIndex_Some[OF Some] have k: "k < length (USERS_FILE d)"
        using readable by simp
      from False readable u have "u \<noteq> USERS_FILE d ! k" by auto
      with u k have "u \<in> set (take k (USERS_FILE d) @ drop (Suc k) (USERS_FILE d))"
        by (rule_tac remove_index_keeps) auto
      with False Some readable show ?thesis
        by (simp add: delete_user_def writeData_def Let_def)
    qed
  qed
qed

text \<open>The administrator of the example store: a request to delete it is refused, and a
  request that deletes Bob leaves it in the file.\<close>

theorem delete_admin_forbidden_witness:
  "delete_user env_ok ''admin-1'' bank = (failure 403 ''Cannot delete admin user'', bank) \<and>
   seed_admin ''2024-05-01T08:00:00.000Z'' \<in> set (USERS_FILE (snd (delete_user env_ok ''user-bob'' bank))) \<and>
   length (USERS_FILE (snd (delete_user env_ok ''user-bob'' bank))) = 2"
proof -
  have found: "findIndex (\<lambda>u. id' u = ''admin-1'')
       (readData (users_readable env_ok) (USERS_FILE bank)) = Some 0"
    by (simp add: env_ok_def bank_def seed_admin_def)
  have admin: "role (readData (users_readable env_ok) (USERS_FILE bank) ! 0) = ''admin''"
    by (simp add: env_ok_def bank_def seed_admin_def)
  have member: "seed_admin ''2024-05-01T08:00:00.000Z'' \<in> set (USERS_FILE bank) \<and>
      role (seed_admin ''2024-05-01T08:00:00.000Z'') = ''admin''"
    by (simp add: bank_def seed_admin_def)
  have len: "length (USERS_FILE (snd (delete_user env_ok ''user-bob'' bank))) = 2"
    by (simp add: delete_user_def env_ok_def bank_def seed_admin_def alice_def bob_def
        writeData_def)
  from delete_admin_forbidden [of "''admin-1''" env_ok bank 0] found admin
  have "delete_user env_ok ''admin-1'' bank = (failure 403 ''Cannot delete admin user'', bank)"
    by blast
  moreover from delete_admin_forbidden [of "''user-bob''" env_ok bank _ "seed_admin ''2024-05-01T08:00:00.000Z''"] member
  have "seed_admin ''2024-05-01T08:00:00.000Z'' \<in> set (USERS_FILE (snd (delete_user env_ok ''user-bob'' bank)))"
    by blast
  ultimately show ?thesis using len by simp
qed

section \<open>Uniqueness of account numbers and e-mail addresses\<close>




section \<open>What a transfer leaves alone\<close>

text \<open>
  Claim C10 says that a successful transfer between two distinct accounts changes the
  two balances and nothing else in the users file, and extends the transaction log by
  one entry, the earlier entries unchanged. The log part fails when the transactions
  file cannot be read: \<^verbatim>\<open>readData\<close> then returns the empty array, the new transaction is
  pushed onto it, and the write replaces the file. The store holds one earlier
  transaction; Alice sends 40 to Bob while the file is unreadable; the request completes
  with status 200 and the file holds the new transaction alone.
\<close>

theorem send_unreadable_log_is_overwritten:
  "send env_log_unreadable ''user-alice'' ''1000000002'' (Num 40) None ''45242769012''
     bank_with_history =
     Some (\<lparr>http_status = 200, success = True,
            body = TransactionBody
              (transfer_record env_log_unreadable ''user-alice'' ''1000000002'' (Num 40) None
                 alice bob)\<rparr>,
           \<lparr>USERS_FILE = [seed_admin ''2024-05-01T08:00:00.000Z'',
                          alice\<lparr>balance := Num 60\<rparr>, bob\<lparr>balance := Num 50\<rparr>],
            TRANSACTIONS_FILE =
              [transfer_record env_log_unreadable ''user-alice'' ''1000000002'' (Num 40) None
                 alice bob]\<rparr>) \<and>
   TRANSACTIONS_FILE bank_with_history =
     [transfer_record env_ok ''user-bob'' ''1000000001'' (Num 5) None bob alice] \<and>
   tx_id (transfer_record env_ok ''user-bob'' ''1000000001'' (Num 5) None bob alice) \<noteq>
   tx_id (transfer_record env_log_unreadable ''user-alice'' ''1000000002'' (Num 40) None alice bob)"
  by (simp add: send_def bank_with_history_def bank_def env_log_unreadable_def env_ok_def
      seed_admin_def alice_def bob_def js_le_zero_def js_eval js_minus_def update_balances_def
      finish_cases transfer_record_def)

text \<open>
  Claim C10, as the code has it. After a transfer that reports success, with the sender
  at index \<open>i\<close> and the recipient at another index \<open>j\<close> of the users file: the
  file has as many entries as before; every entry other than those two is unchanged;
  every entry is the entry before but for its balance, so that no field other than the
  balance has changed anywhere; the log written is the log as read followed by one
  transfer; and when the transactions file could be read, that is the stored log,
  unchanged, followed by the one new entry.
\<close>

theorem send_frame:
  assumes "send e senderId recipientAccountNumber amount note transactionCode d = Some (r, d')"
    and "success r"
    and "findIndex (\<lambda>u. id' u = senderId) (USERS_FILE d) = Some i"
    and "findIndex (\<lambda>u. accountNumber u = recipientAccountNumber) (USERS_FILE d) = Some j"
    and "i \<noteq> j"
  shows "length (USERS_FILE d') = length (USERS_FILE d) \<and>
     (\<forall>k<length (USERS_FILE d). k \<noteq> i \<and> k \<noteq> j \<longrightarrow> USERS_FILE d' ! k = USERS_FILE d ! k) \<and>
     (\<forall>k<length (USERS_FILE d).
        USERS_FILE d' ! k = (USERS_FILE d ! k)\<lparr>balance := balance (USERS_FILE d' ! k)\<rparr>) \<and>
     (\<exists>t. tx_type t = ''transfer'' \<and>
          TRANSACTIONS_FILE d' =
            readData (transactions_readable e) (TRANSACTIONS_FILE d) @ [t]) \<and>
     (transactions_readable e \<longrightarrow> (\<exists>t. TRANSACTIONS_FILE d' = TRANSACTIONS_FILE d @ [t]))"
proof -
  from send_success[OF assms(1,2)] assms(3,4) obtain users' where
    upd: "update_balances (USERS_FILE d) i j amount = Some users'" and
    d': "d' = \<lparr>USERS_FILE = users',
             TRANSACTIONS_FILE = readData (transactions_readable e) (TRANSACTIONS_FILE d) @
               [transfer_record e senderId recipientAccountNumber amount note
                  (users' ! i) (users' ! j)]\<rparr>"
    by auto
  have "length (USERS_FILE d') = length (USERS_FILE d)"
    using update_balances_length[OF upd] by (simp add: d')
  moreover have "\<forall>k<length (USERS_FILE d). k \<noteq> i \<and> k \<noteq> j \<longrightarrow> USERS_FILE d' ! k = USERS_FILE d ! k"
    using update_balances_other[OF upd] by (simp add: d')
  moreover have "\<forall>k<length (USERS_FILE d).
        USERS_FILE d' ! k = (USERS_FILE d ! k)\<lparr>balance := balance (USERS_FILE d' ! k)\<rparr>"
    using update_balances_nth[OF upd] by (simp add: d')
  moreover have "\<exists>t. tx_type t = ''transfer'' \<and>
          TRANSACTIONS_FILE d' =
            readData (transactions_readable e) (TRANSACTIONS_FILE d) @ [t]"
    by (simp add: d' transfer_record_def)
  moreover have "transactions_readable e \<longrightarrow> (\<exists>t. TRANSACTIONS_FILE d' = TRANSACTIONS_FILE d @ [t])"
    by (simp add: d')
  ultimately show ?thesis by blast
qed

text \<open>Alice, at index 1, sends 40 to Bob, at index 2, with every read and write going
  through.\<close>

theorem send_frame_witness:
  "length (USERS_FILE \<lparr>USERS_FILE = [seed_admin ''2024-05-01T08:00:00.000Z'',
                          alice\<lparr>balance := Num 60\<rparr>, bob\<lparr>balance := Num 50\<rparr>],
            TRANSACTIONS_FILE =
              [transfer_record env_ok ''user-alice'' ''1000000002'' (Num 40) None alice bob]\<rparr>) =
     length (USERS_FILE bank) \<and>
   (\<exists>t. [transfer_record env_ok ''user-alice'' ''1000000002'' (Num 40) None alice bob] =
          TRANSACTIONS_FILE bank @ [t])"
proof -
  have run: "send env_ok ''user-alice'' ''1000000002'' (Num 40) None ''45242769012'' bank =
     Some (\<lparr>http_status = 200, success = True,
            body = TransactionBody
              (transfer_record env_ok ''user-alice'' ''1000000002'' (Num 40) None alice bob)\<rparr>,
           \<lparr>USERS_FILE = [seed_admin ''2024-05-01T08:00:00.000Z'',
                          alice\<lparr>balance := Num 60\<rparr>, bob\<lparr>balance := Num 50\<rparr>],
            TRANSACTIONS_FILE =
              [transfer_record env_ok ''user-alice'' ''1000000002'' (Num 40) None alice bob]\<rparr>)"
    by (simp add: send_def bank_def env_ok_def seed_admin_def alice_def bob_def js_le_zero_def js_eval
        js_minus_def update_balances_def finish_cases transfer_record_def)
  have sender: "findIndex (\<lambda>u. id' u = ''user-alice'') (USERS_FILE bank) = Some 1"
    by (simp add: bank_def seed_admin_def alice_def)
  have recipient: "findIndex (\<lambda>u. accountNumber u = ''1000000002'') (USERS_FILE bank) = Some 2"
    by (simp add: bank_def seed_admin_def alice_def bob_def)
  have readable: "transactions_readable env_ok"
    by (simp add: env_ok_def)
  from send_frame[OF run _ sender recipient] readable show ?thesis
    by simp
qed

end
